theory Spec2Isabelle
  imports
    Complex_Main
    "HOL-Library.Product_Lexorder"
    "HOL-Library.List_Lexorder"
    "HOL-Library.Char_ord"
begin

section \<open>Python values and exceptions\<close>

text \<open>
  Every exception the modelled code can meet is a value of \<open>error\<close>; a function that may
  raise returns \<open>error + 'a\<close> with \<open>Inl\<close> for the raise.  \<open>OperationalError\<close> is what the
  ledger driver raises when the store cannot be reached, \<open>HTTPError\<close> carries the
  status code of the response (\<open>None\<close> when the exception has no response) and
  \<open>ConnectionError\<close> stands for every other transport failure.
\<close>

datatype error =
    ValueError
  | TypeError
  | OverflowError
  | ZeroDivisionError
  | AttributeError
  | RuntimeError
  | OperationalError
  | ConnectionError
  | HTTPError "nat option"

definition bind_err :: "error + 'a \<Rightarrow> ('a \<Rightarrow> error + 'b) \<Rightarrow> error + 'b" where
  "bind_err m f = (case m of Inl e \<Rightarrow> Inl e | Inr x \<Rightarrow> f x)"

text \<open>
  A Python \<open>float\<close> is modelled as a real number: arithmetic is exact, and there is no
  infinity and no NaN.  The properties below are about which values are added, truncated
  and rounded, and in which order; none of them is about rounding error.
\<close>

datatype pyval =
    PNone
  | PBool bool
  | PInt int
  | PFloat real
  | PStr string
  | PList "pyval list"
  | PDict "(string \<times> pyval) list"

fun truthy :: "pyval \<Rightarrow> bool" where
  "truthy PNone = False"
| "truthy (PBool b) = b"
| "truthy (PInt i) = (i \<noteq> 0)"
| "truthy (PFloat r) = (r \<noteq> 0)"
| "truthy (PStr s) = (s \<noteq> [])"
| "truthy (PList xs) = (xs \<noteq> [])"
| "truthy (PDict kvs) = (kvs \<noteq> [])"

subsection \<open>Strings and the built-in conversions\<close>

definition is_digit :: "char \<Rightarrow> bool" where
  "is_digit c = (c \<in> set ''0123456789'')"

definition is_space :: "char \<Rightarrow> bool" where
  "is_space c =
     (c \<in> {CHR '' '', CHR 0x09, CHR 0x0A, CHR 0x0B, CHR 0x0C, CHR 0x0D,
            CHR 0x1C, CHR 0x1D, CHR 0x1E, CHR 0x1F})"

definition digit_val :: "char \<Rightarrow> nat" where
  "digit_val c = of_char c - 48"

text \<open>\<open>str.isdigit()\<close> on an ASCII string: not empty, and every character a digit.\<close>

definition isdigit :: "string \<Rightarrow> bool" where
  "isdigit s = (s \<noteq> [] \<and> list_all is_digit s)"

definition strip :: "string \<Rightarrow> string" where
  "strip s = rev (dropWhile is_space (rev (dropWhile is_space s)))"

text \<open>
  A run of decimal digits in which single underscores may stand between two digits, as
  \<open>int\<close> and \<open>float\<close> read it.  \<open>digits_from acc n cs\<close> continues after a digit: \<open>acc\<close>
  is the value so far and \<open>n\<close> the number of digits read.
\<close>

fun digits_from :: "nat \<Rightarrow> nat \<Rightarrow> string \<Rightarrow> (nat \<times> nat \<times> string) option" where
  "digits_from acc n [] = Some (acc, n, [])"
| "digits_from acc n [c] =
     (if is_digit c then Some (acc * 10 + digit_val c, Suc n, [])
      else if c = CHR ''_'' then None
      else Some (acc, n, [c]))"
| "digits_from acc n (c # d # ds) =
     (if is_digit c then digits_from (acc * 10 + digit_val c) (Suc n) (d # ds)
      else if c = CHR ''_'' then
        (if is_digit d then digits_from (acc * 10 + digit_val d) (Suc n) ds else None)
      else Some (acc, n, c # d # ds))"

text \<open>A non-empty digit run at the head of the string: its value, its length, the rest.\<close>

definition digit_run :: "string \<Rightarrow> (nat \<times> nat \<times> string) option" where
  "digit_run s =
     (case s of
        [] \<Rightarrow> None
      | c # cs \<Rightarrow> if is_digit c then digits_from (digit_val c) 1 cs else None)"

definition unsigned_int :: "string \<Rightarrow> nat option" where
  "unsigned_int s =
     (case digit_run s of
        Some (v, n, []) \<Rightarrow> Some v
      | _ \<Rightarrow> None)"

text \<open>\<open>int(s)\<close> for a string: surrounding whitespace, one optional sign, decimal digits.\<close>

definition int_of_str :: "string \<Rightarrow> error + int" where
  "int_of_str s =
     (case strip s of
        [] \<Rightarrow> Inl ValueError
      | c # cs \<Rightarrow>
          if c = CHR ''-'' then
            (case unsigned_int cs of None \<Rightarrow> Inl ValueError | Some v \<Rightarrow> Inr (- int v))
          else if c = CHR ''+'' then
            (case unsigned_int cs of None \<Rightarrow> Inl ValueError | Some v \<Rightarrow> Inr (int v))
          else
            (case unsigned_int (c # cs) of None \<Rightarrow> Inl ValueError | Some v \<Rightarrow> Inr (int v)))"

text \<open>
  \<open>float(s)\<close> for a string: whitespace, sign, a decimal mantissa (\<open>12\<close>, \<open>12.\<close>, \<open>12.5\<close>,
  \<open>.5\<close>) and an optional exponent.  The words \<open>inf\<close> and \<open>nan\<close>, which Python also
  accepts, have no value among the reals and are read as malformed.
\<close>

definition mantissa :: "string \<Rightarrow> (real \<times> string) option" where
  "mantissa s =
     (case s of
        [] \<Rightarrow> None
      | c # cs \<Rightarrow>
          if c = CHR ''.'' then
            (case digit_run cs of
               None \<Rightarrow> None
             | Some (f, n, rest) \<Rightarrow> Some (real f / 10 ^ n, rest))
          else
            (case digit_run (c # cs) of
               None \<Rightarrow> None
             | Some (i, k, rest) \<Rightarrow>
                 (case rest of
                    [] \<Rightarrow> Some (real i, [])
                  | r # rs \<Rightarrow>
                      if r = CHR ''.'' then
                        (case rs of
                           [] \<Rightarrow> Some (real i, [])
                         | q # qs \<Rightarrow>
                             if is_digit q then
                               (case digit_run rs of
                                  None \<Rightarrow> None
                                | Some (f, n, rest') \<Rightarrow> Some (real i + real f / 10 ^ n, rest'))
                             else Some (real i, rs))
                      else Some (real i, rest))))"

definition exponent :: "string \<Rightarrow> int option" where
  "exponent s =
     (case s of
        [] \<Rightarrow> Some 0
      | c # cs \<Rightarrow>
          if c = CHR ''e'' \<or> c = CHR ''E'' then
            (case cs of
               [] \<Rightarrow> None
             | d # ds \<Rightarrow>
                 if d = CHR ''-'' then map_option (\<lambda>v. - int v) (unsigned_int ds)
                 else if d = CHR ''+'' then map_option int (unsigned_int ds)
                 else map_option int (unsigned_int cs))
          else None)"

definition unsigned_float :: "string \<Rightarrow> real option" where
  "unsigned_float s =
     (case mantissa s of
        None \<Rightarrow> None
      | Some (m, rest) \<Rightarrow>
          (case exponent rest of
             None \<Rightarrow> None
           | Some e \<Rightarrow> Some (if 0 \<le> e then m * 10 ^ nat e else m / 10 ^ nat (- e))))"

definition float_of_str :: "string \<Rightarrow> error + real" where
  "float_of_str s =
     (case strip s of
        [] \<Rightarrow> Inl ValueError
      | c # cs \<Rightarrow>
          if c = CHR ''-'' then
            (case unsigned_float cs of None \<Rightarrow> Inl ValueError | Some v \<Rightarrow> Inr (- v))
          else if c = CHR ''+'' then
            (case unsigned_float cs of None \<Rightarrow> Inl ValueError | Some v \<Rightarrow> Inr v)
          else
            (case unsigned_float (c # cs) of None \<Rightarrow> Inl ValueError | Some v \<Rightarrow> Inr v))"

text \<open>\<open>int(x)\<close> of a float truncates toward zero.\<close>

definition trunc :: "real \<Rightarrow> int" where
  "trunc x = (if 0 \<le> x then \<lfloor>x\<rfloor> else \<lceil>x\<rceil>)"

fun py_int :: "pyval \<Rightarrow> error + int" where
  "py_int PNone = Inl TypeError"
| "py_int (PBool b) = Inr (if b then 1 else 0)"
| "py_int (PInt i) = Inr i"
| "py_int (PFloat r) = Inr (trunc r)"
| "py_int (PStr s) = int_of_str s"
| "py_int (PList xs) = Inl TypeError"
| "py_int (PDict kvs) = Inl TypeError"

fun py_float :: "pyval \<Rightarrow> error + real" where
  "py_float PNone = Inl TypeError"
| "py_float (PBool b) = Inr (if b then 1 else 0)"
| "py_float (PInt i) = Inr (real_of_int i)"
| "py_float (PFloat r) = Inr r"
| "py_float (PStr s) = float_of_str s"
| "py_float (PList xs) = Inl TypeError"
| "py_float (PDict kvs) = Inl TypeError"

text \<open>
  \<open>round(x, 2)\<close>: the nearest multiple of one hundredth, a tie going to the even
  neighbour.
\<close>

definition round_half_even :: "real \<Rightarrow> int" where
  "round_half_even x =
     (let f = \<lfloor>x\<rfloor>; d = x - real_of_int f
      in if d < 1 / 2 then f
         else if 1 / 2 < d then f + 1
         else if even f then f else f + 1)"

definition round2 :: "real \<Rightarrow> real" where
  "round2 x = real_of_int (round_half_even (x * 100)) / 100"

text \<open>The built-in \<open>sum\<close>: it starts at 0 and adds from the left.\<close>

definition py_sum :: "'a::monoid_add list \<Rightarrow> 'a" where
  "py_sum xs = foldl (+) 0 xs"


section \<open>Dates and times\<close>

text \<open>
  A naive \<open>datetime\<close>, field by field as Python holds it.  Two of them compare as their
  field tuples do, lexicographically.
\<close>

record datetime =
  year :: nat
  month :: nat
  mday :: nat
  hour :: nat
  minute :: nat
  second :: nat
  microsecond :: nat

definition dt_key :: "datetime \<Rightarrow> nat \<times> nat \<times> nat \<times> nat \<times> nat \<times> nat \<times> nat" where
  "dt_key d = (year d, month d, mday d, hour d, minute d, second d, microsecond d)"

definition dt_le :: "datetime \<Rightarrow> datetime \<Rightarrow> bool" where
  "dt_le a b = (dt_key a \<le> dt_key b)"

definition dt_less :: "datetime \<Rightarrow> datetime \<Rightarrow> bool" where
  "dt_less a b = (dt_key a < dt_key b)"

definition is_leap :: "nat \<Rightarrow> bool" where
  "is_leap y = (y mod 4 = 0 \<and> (y mod 100 \<noteq> 0 \<or> y mod 400 = 0))"

definition days_in_month :: "nat \<Rightarrow> nat \<Rightarrow> nat" where
  "days_in_month y m =
     (if m = 2 then (if is_leap y then 29 else 28)
      else if m = 4 \<or> m = 6 \<or> m = 9 \<or> m = 11 then 30
      else 31)"

definition valid_date :: "datetime \<Rightarrow> bool" where
  "valid_date d =
     (1 \<le> year d \<and> year d \<le> 9999 \<and> 1 \<le> month d \<and> month d \<le> 12 \<and>
      1 \<le> mday d \<and> mday d \<le> days_in_month (year d) (month d))"

text \<open>
  \<open>dt - timedelta(days=1)\<close>, \<open>dt + timedelta(days=1)\<close> and \<open>dt - timedelta(seconds=1)\<close>:
  the time of day is kept and the calendar date moves; leaving the years 1 to 9999 raises
  OverflowError.
\<close>

definition minus_one_day :: "datetime \<Rightarrow> error + datetime" where
  "minus_one_day d =
     (if 1 < mday d then Inr (d\<lparr>mday := mday d - 1\<rparr>)
      else if 1 < month d then
        Inr (d\<lparr>month := month d - 1, mday := days_in_month (year d) (month d - 1)\<rparr>)
      else if 1 < year d then Inr (d\<lparr>year := year d - 1, month := 12, mday := 31\<rparr>)
      else Inl OverflowError)"

definition plus_one_day :: "datetime \<Rightarrow> error + datetime" where
  "plus_one_day d =
     (if mday d < days_in_month (year d) (month d) then Inr (d\<lparr>mday := mday d + 1\<rparr>)
      else if month d < 12 then Inr (d\<lparr>month := month d + 1, mday := 1\<rparr>)
      else if year d < 9999 then Inr (d\<lparr>year := year d + 1, month := 1, mday := 1\<rparr>)
      else Inl OverflowError)"

definition minus_one_second :: "datetime \<Rightarrow> error + datetime" where
  "minus_one_second d =
     (if 0 < second d then Inr (d\<lparr>second := second d - 1\<rparr>)
      else if 0 < minute d then Inr (d\<lparr>minute := minute d - 1, second := 59\<rparr>)
      else if 0 < hour d then Inr (d\<lparr>hour := hour d - 1, minute := 59, second := 59\<rparr>)
      else bind_err (minus_one_day d) (\<lambda>p. Inr (p\<lparr>hour := 23, minute := 59, second := 59\<rparr>)))"

subsection \<open>Formatting and parsing with the pattern %Y-%m-%d\<close>

definition digit_char :: "nat \<Rightarrow> char" where
  "digit_char n = ''0123456789'' ! (n mod 10)"

definition pad2 :: "nat \<Rightarrow> string" where
  "pad2 n = [digit_char (n div 10), digit_char n]"

definition pad4 :: "nat \<Rightarrow> string" where
  "pad4 n = [digit_char (n div 1000), digit_char (n div 100), digit_char (n div 10), digit_char n]"

text \<open>
  \<open>dt.strftime("%Y-%m-%d")\<close>, with the year written on four digits, as it is for the
  years 1000 to 9999.
\<close>

definition strftime :: "datetime \<Rightarrow> string" where
  "strftime d = pad4 (year d) @ ''-'' @ pad2 (month d) @ ''-'' @ pad2 (mday d)"

text \<open>
  \<open>datetime.strptime(s, "%Y-%m-%d")\<close>.  The year is exactly four digits; the month is
  \<open>1[0-2]|0[1-9]|[1-9]\<close>; the day is \<open>3[01]|[12]\d|0[1-9]|[1-9]| [1-9]\<close>; the whole string
  must be used up, and the three numbers must form a date of the calendar.
\<close>

definition month_token :: "string \<Rightarrow> nat option" where
  "month_token t =
     (case t of
        [a] \<Rightarrow> if is_digit a \<and> a \<noteq> CHR ''0'' then Some (digit_val a) else None
      | [a, b] \<Rightarrow>
          if a = CHR ''1'' \<and> b \<in> set ''012'' then Some (10 + digit_val b)
          else if a = CHR ''0'' \<and> is_digit b \<and> b \<noteq> CHR ''0'' then Some (digit_val b)
          else None
      | _ \<Rightarrow> None)"

definition day_token :: "string \<Rightarrow> nat option" where
  "day_token t =
     (case t of
        [a] \<Rightarrow> if is_digit a \<and> a \<noteq> CHR ''0'' then Some (digit_val a) else None
      | [a, b] \<Rightarrow>
          if a = CHR ''3'' \<and> b \<in> set ''01'' then Some (30 + digit_val b)
          else if a \<in> set ''12'' \<and> is_digit b then Some (10 * digit_val a + digit_val b)
          else if (a = CHR ''0'' \<or> a = CHR '' '') \<and> is_digit b \<and> b \<noteq> CHR ''0''
            then Some (digit_val b)
          else None
      | _ \<Rightarrow> None)"

definition strptime :: "string \<Rightarrow> error + datetime" where
  "strptime s =
     (case s of
        y1 # y2 # y3 # y4 # dash # rest \<Rightarrow>
          if list_all is_digit [y1, y2, y3, y4] \<and> dash = CHR ''-'' then
            (case (month_token (takeWhile (\<lambda>c. c \<noteq> CHR ''-'') rest),
                   dropWhile (\<lambda>c. c \<noteq> CHR ''-'') rest) of
               (Some m, dash' # dtok) \<Rightarrow>
                 (case day_token dtok of
                    Some d \<Rightarrow>
                      (let dt = \<lparr>year = 1000 * digit_val y1 + 100 * digit_val y2
                                        + 10 * digit_val y3 + digit_val y4,
                                 month = m, mday = d, hour = 0, minute = 0, second = 0,
                                 microsecond = 0\<rparr>
                       in if valid_date dt then Inr dt else Inl ValueError)
                  | None \<Rightarrow> Inl ValueError)
             | _ \<Rightarrow> Inl ValueError)
          else Inl ValueError
      | _ \<Rightarrow> Inl ValueError)"

section \<open>The process environment and the local ledger store\<close>

text \<open>
  A row of \<open>grocy_temp_items\<close>.  The four macro columns are REAL and may be NULL
  (\<open>None\<close>); \<open>name\<close> and \<open>day\<close> are TEXT NOT NULL.
\<close>

record temp_item =
  item_id :: int
  item_name :: string
  item_calories :: "real option"
  item_carbs :: "real option"
  item_fats :: "real option"
  item_protein :: "real option"
  item_day :: string

text \<open>
  The ledger: the key/value table \<open>grocy_config\<close>, the rows of \<open>grocy_temp_items\<close> in the
  order of \<open>created_at\<close>, and the \<open>day\<close> column of a table named \<open>temp_items\<close>, which the
  schema does not create (\<open>None\<close> when that table does not exist).
\<close>

record ledger =
  grocy_config :: "string \<Rightarrow> string option"
  grocy_temp_items :: "temp_item list"
  temp_items_days :: "string option list option"


section \<open>The inventory backend\<close>

text \<open>
  A meal-plan entry as the backend returns it.  \<open>None\<close> is an absent key; \<open>Some PNone\<close> is
  a key whose value is null.  The \<open>day\<close> of an entry is a date string of the backend, or
  absent.
\<close>

record meal_plan_entry =
  entry_day :: "string option"
  entry_done :: "pyval option"
  entry_is_done :: "pyval option"
  entry_completed :: "pyval option"
  entry_recipe_id :: "pyval option"
  entry_product_id :: "pyval option"
  entry_servings :: "pyval option"
  entry_amount :: "pyval option"

text \<open>The shapes in which the backend answers a list request.\<close>

datatype 'a listing = BareList "'a list" | DataEnvelope "'a list" | OtherShape

text \<open>The paths the aggregation engine reads with \<open>client._get\<close>.\<close>

datatype path =
    ObjectsRecipes int
  | ObjectsRecipesUserfields int
  | UserfieldsRecipes int
  | ObjectsProducts int
  | ObjectsProductsUserfields int
  | UserfieldsProducts int

record backend =
  get_objects_meal_plan :: "error + meal_plan_entry listing"
  http_get :: "path \<Rightarrow> error + pyval"

section \<open>The world a call runs in\<close>

text \<open>
  The environment variables, the wall clock, the ledger (\<open>None\<close> when the store cannot be
  reached, so that every query raises) and the backend.
\<close>

record world =
  getenv :: "string \<Rightarrow> string option"
  now :: datetime
  store :: "ledger option"
  grocy :: backend

text \<open>\<open>x or y\<close> on optional strings: \<open>None\<close> and the empty string are falsy.\<close>

definition str_truthy :: "string option \<Rightarrow> bool" where
  "str_truthy v = (case v of None \<Rightarrow> False | Some s \<Rightarrow> s \<noteq> [])"

subsection \<open>macro_db\<close>

definition get_config :: "world \<Rightarrow> string \<Rightarrow> error + string option" where
  "get_config w key =
     (case store w of
        None \<Rightarrow> Inl OperationalError
      | Some l \<Rightarrow> Inr (grocy_config l key))"

definition get_temp_items_for_day :: "world \<Rightarrow> string \<Rightarrow> error + temp_item list" where
  "get_temp_items_for_day w day =
     (case store w of
        None \<Rightarrow> Inl OperationalError
      | Some l \<Rightarrow> Inr (filter (\<lambda>item. item_day item = day) (grocy_temp_items l)))"

section \<open>day_utils\<close>

definition get_day_start_hour :: "world \<Rightarrow> error + nat" where
  "get_day_start_hour w =
     (let env_time = getenv w ''DAY_START_TIME'';
          from_env =
            (case env_time of
               None \<Rightarrow> None
             | Some s \<Rightarrow>
                 if s \<noteq> [] \<and> length s = 4 \<and> isdigit s then
                   (case int_of_str (take 2 s) of
                      Inr h \<Rightarrow> if 0 \<le> h \<and> h \<le> 23 then Some (nat h) else None
                    | Inl e \<Rightarrow> None)
                 else None)
      in case from_env of
           Some h \<Rightarrow> Inr h
         | None \<Rightarrow>
             bind_err (get_config w ''day_start_hour'')
               (\<lambda>hour_str.
                  case hour_str of
                    None \<Rightarrow> Inr 6
                  | Some s \<Rightarrow>
                      (case int_of_str s of
                         Inr h \<Rightarrow> if 0 \<le> h \<and> h \<le> 23 then Inr (nat h) else Inr 6
                       | Inl e \<Rightarrow> Inr 6)))"

definition get_current_day_timestamp :: "world \<Rightarrow> error + string" where
  "get_current_day_timestamp w =
     bind_err (get_day_start_hour w)
       (\<lambda>start_hour.
          if hour (now w) < start_hour then
            bind_err (minus_one_day (now w)) (\<lambda>adjusted. Inr (strftime adjusted))
          else Inr (strftime (now w)))"

definition get_datetime_range_for_day :: "world \<Rightarrow> string \<Rightarrow> error + datetime \<times> datetime" where
  "get_datetime_range_for_day w day =
     bind_err (get_day_start_hour w)
       (\<lambda>start_hour.
          bind_err (strptime day)
            (\<lambda>day_date.
               let start_dt = day_date\<lparr>hour := start_hour, minute := 0, second := 0,
                                       microsecond := 0\<rparr>
               in bind_err (plus_one_day start_dt)
                    (\<lambda>next_dt.
                       bind_err (minus_one_second next_dt)
                         (\<lambda>end_dt. Inr (start_dt, end_dt)))))"

definition is_datetime_in_day :: "world \<Rightarrow> datetime \<Rightarrow> string \<Rightarrow> error + bool" where
  "is_datetime_in_day w dt day =
     bind_err (get_datetime_range_for_day w day)
       (\<lambda>(start_dt, end_dt). Inr (dt_le start_dt dt \<and> dt_le dt end_dt))"


section \<open>The backend client and its services\<close>

text \<open>The constructor refuses to build a client without an API key.\<close>

definition GrocyClient :: "world \<Rightarrow> error + backend" where
  "GrocyClient w =
     (if str_truthy (getenv w ''GROCY_API_KEY'') then Inr (grocy w) else Inl RuntimeError)"

definition list_meal_plan :: "backend \<Rightarrow> error + meal_plan_entry list" where
  "list_meal_plan c =
     bind_err (get_objects_meal_plan c)
       (\<lambda>data. case data of
                 DataEnvelope xs \<Rightarrow> Inr xs
               | BareList xs \<Rightarrow> Inr xs
               | OtherShape \<Rightarrow> Inr [])"

definition get_recipe :: "backend \<Rightarrow> int \<Rightarrow> error + (string \<times> pyval) list" where
  "get_recipe c rid =
     bind_err (http_get c (ObjectsRecipes rid))
       (\<lambda>data. case data of PDict d \<Rightarrow> Inr d | _ \<Rightarrow> Inr [(''id'', PInt rid)])"

text \<open>
  The userfields of a product: the first endpoint, and the second one when the first
  gives no object or fails; an HTTP error of the first endpoint whose status is neither 404
  nor 405 is raised again.
\<close>

definition get_product_userfields :: "backend \<Rightarrow> int \<Rightarrow> error + (string \<times> pyval) list" where
  "get_product_userfields c pid =
     (let second = bind_err (http_get c (UserfieldsProducts pid))
                     (\<lambda>data. case data of PDict d \<Rightarrow> Inr d | _ \<Rightarrow> Inr [])
      in case http_get c (ObjectsProductsUserfields pid) of
           Inr (PDict d) \<Rightarrow> Inr d
         | Inr _ \<Rightarrow> second
         | Inl (HTTPError status) \<Rightarrow>
             if status \<noteq> Some 404 \<and> status \<noteq> Some 405 then Inl (HTTPError status) else second
         | Inl _ \<Rightarrow> second)"

section \<open>macro_aggregator\<close>

definition dict_get :: "(string \<times> pyval) list \<Rightarrow> string \<Rightarrow> pyval" where
  "dict_get d k = (case map_of d k of None \<Rightarrow> PNone | Some v \<Rightarrow> v)"

text \<open>
  \<open>entry.get(key, default)\<close> on a field of an entry.  The helpers \<open>_get_float\<close> and
  \<open>_get_recipe_userfields\<close> of the source are \<open>get_float\<close> and
  \<open>get_recipe_userfields\<close> here.
\<close>

definition get_or :: "pyval option \<Rightarrow> pyval \<Rightarrow> pyval" where
  "get_or field dflt = (case field of None \<Rightarrow> dflt | Some v \<Rightarrow> v)"

definition get_float :: "(string \<times> pyval) list \<Rightarrow> string \<Rightarrow> real \<Rightarrow> real" where
  "get_float data key dflt =
     (case dict_get data key of
        PNone \<Rightarrow> dflt
      | val \<Rightarrow> (case py_float val of Inr r \<Rightarrow> r | Inl e \<Rightarrow> dflt))"

definition get_recipe_userfields :: "backend \<Rightarrow> int \<Rightarrow> (string \<times> pyval) list" where
  "get_recipe_userfields c recipe_id =
     (case http_get c (ObjectsRecipesUserfields recipe_id) of
        Inr (PDict d) \<Rightarrow> d
      | _ \<Rightarrow>
          (case http_get c (UserfieldsRecipes recipe_id) of
             Inr (PDict d) \<Rightarrow> d
           | _ \<Rightarrow> []))"

datatype origin = Recipe | Product | Temp

text \<open>
  The display name of an entry: the \<open>name\<close> found, or the default text followed by the
  id as the entry holds it.
\<close>

datatype entry_name = Name pyval | DefaultName string pyval

record consumed_entry =
  e_type :: origin
  e_id :: int
  e_name :: entry_name
  e_servings :: "real option"
  e_calories :: int
  e_carbs :: real
  e_fats :: real
  e_protein :: real

record macros =
  calories :: int
  carbs :: real
  fats :: real
  protein :: real

record consumed_totals = macros +
  entries :: "consumed_entry list"

record day_summary =
  summary_day :: string
  consumed :: consumed_totals
  planned :: macros
  goal :: macros

text \<open>\<open>entry.get("done") or entry.get("is_done") or entry.get("completed")\<close>, as a test.\<close>

definition is_done :: "meal_plan_entry \<Rightarrow> bool" where
  "is_done entry =
     (truthy (get_or (entry_done entry) PNone) \<or>
      truthy (get_or (entry_is_done entry) PNone) \<or>
      truthy (get_or (entry_completed entry) PNone))"

text \<open>The body of the \<open>try\<close> of a recipe entry and of a product entry.\<close>

definition recipe_consumed :: "backend \<Rightarrow> meal_plan_entry \<Rightarrow> pyval \<Rightarrow> error + consumed_entry" where
  "recipe_consumed c entry recipe_id =
     bind_err (py_int recipe_id)
       (\<lambda>rid.
          bind_err (get_recipe c rid)
            (\<lambda>recipe.
               let userfields = get_recipe_userfields c rid
               in bind_err (py_float (get_or (entry_servings entry) (PFloat 1)))
                    (\<lambda>servings.
                       Inr \<lparr>e_type = Recipe,
                            e_id = rid,
                            e_name = (case map_of recipe ''name'' of
                                        Some v \<Rightarrow> Name v
                                      | None \<Rightarrow> DefaultName ''Recipe '' recipe_id),
                            e_servings = Some servings,
                            e_calories = trunc (get_float userfields ''recipe_calories'' 0 * servings),
                            e_carbs = get_float userfields ''recipe_carbs'' 0 * servings,
                            e_fats = get_float userfields ''recipe_fats'' 0 * servings,
                            e_protein = get_float userfields ''recipe_proteins'' 0 * servings\<rparr>)))"

definition product_consumed :: "backend \<Rightarrow> meal_plan_entry \<Rightarrow> pyval \<Rightarrow> error + consumed_entry" where
  "product_consumed c entry product_id =
     bind_err (py_int product_id)
       (\<lambda>pid.
          bind_err (http_get c (ObjectsProducts pid))
            (\<lambda>product.
               bind_err (get_product_userfields c pid)
                 (\<lambda>userfields.
                    bind_err (py_float (get_or (entry_amount entry) (PFloat 1)))
                      (\<lambda>amount.
                         let cals_per_serv = get_float userfields ''Calories_Per_Serving'' 0;
                             carbs_per_serv = get_float userfields ''Carbs'' 0;
                             fats_per_serv = get_float userfields ''Fats'' 0;
                             protein_per_serv = get_float userfields ''Protein'' 0
                         in case product of
                              PDict d \<Rightarrow>
                                Inr \<lparr>e_type = Product,
                                     e_id = pid,
                                     e_name = (case map_of d ''name'' of
                                                 Some v \<Rightarrow> Name v
                                               | None \<Rightarrow> DefaultName ''Product '' product_id),
                                     e_servings = Some amount,
                                     e_calories = trunc (cals_per_serv * amount),
                                     e_carbs = carbs_per_serv * amount,
                                     e_fats = fats_per_serv * amount,
                                     e_protein = protein_per_serv * amount\<rparr>
                            | _ \<Rightarrow> Inl AttributeError))))"

text \<open>
  One round of the loop of \<open>get_grocy_consumed_for_day\<close>: the entry appended, or \<open>None\<close>
  when the round ends in \<open>continue\<close>.
\<close>

definition consumed_of_entry :: "backend \<Rightarrow> string \<Rightarrow> meal_plan_entry \<Rightarrow> consumed_entry option" where
  "consumed_of_entry c day entry =
     (if entry_day entry \<noteq> Some day then None
      else if \<not> is_done entry then None
      else
        let recipe_id = get_or (entry_recipe_id entry) PNone;
            product_id = get_or (entry_product_id entry) PNone
        in if truthy recipe_id then
             (case recipe_consumed c entry recipe_id of Inr e \<Rightarrow> Some e | Inl err \<Rightarrow> None)
           else if truthy product_id then
             (case product_consumed c entry product_id of Inr e \<Rightarrow> Some e | Inl err \<Rightarrow> None)
           else None)"

fun consumed_loop :: "backend \<Rightarrow> string \<Rightarrow> meal_plan_entry list \<Rightarrow> consumed_entry list" where
  "consumed_loop c day [] = []"
| "consumed_loop c day (entry # rest) =
     (case consumed_of_entry c day entry of
        None \<Rightarrow> consumed_loop c day rest
      | Some e \<Rightarrow> e # consumed_loop c day rest)"

definition get_grocy_consumed_for_day :: "world \<Rightarrow> string \<Rightarrow> consumed_entry list" where
  "get_grocy_consumed_for_day w day =
     (case bind_err (GrocyClient w) (\<lambda>client.
             bind_err (list_meal_plan client) (\<lambda>all_entries.
               Inr (consumed_loop client day all_entries))) of
        Inr found \<Rightarrow> found
      | Inl err \<Rightarrow> [])"

text \<open>
  A row of the ledger as an entry.  \<open>int(None)\<close> and \<open>float(None)\<close> raise TypeError, which
  ends the whole loop in the handler of \<open>get_temp_consumed_for_day\<close>.
\<close>

definition temp_entry :: "temp_item \<Rightarrow> error + consumed_entry" where
  "temp_entry item =
     (case (item_calories item, item_carbs item, item_fats item, item_protein item) of
        (Some cal, Some ca, Some fa, Some pr) \<Rightarrow>
          Inr \<lparr>e_type = Temp,
               e_id = item_id item,
               e_name = Name (PStr (item_name item)),
               e_servings = None,
               e_calories = trunc cal,
               e_carbs = ca,
               e_fats = fa,
               e_protein = pr\<rparr>
      | _ \<Rightarrow> Inl TypeError)"

fun temp_loop :: "temp_item list \<Rightarrow> error + consumed_entry list" where
  "temp_loop [] = Inr []"
| "temp_loop (item # rest) =
     bind_err (temp_entry item) (\<lambda>e. bind_err (temp_loop rest) (\<lambda>es. Inr (e # es)))"

definition get_temp_consumed_for_day :: "world \<Rightarrow> string \<Rightarrow> consumed_entry list" where
  "get_temp_consumed_for_day w day =
     (case bind_err (get_temp_items_for_day w day) temp_loop of
        Inr result \<Rightarrow> result
      | Inl err \<Rightarrow> [])"

text \<open>
  What one entry adds to the four running totals of \<open>get_grocy_planned_for_day\<close>, or
  \<open>None\<close> when the round ends in \<open>continue\<close>.
\<close>

definition planned_of_entry :: "backend \<Rightarrow> string \<Rightarrow> meal_plan_entry \<Rightarrow> (int \<times> real \<times> real \<times> real) option" where
  "planned_of_entry c day entry =
     (if entry_day entry \<noteq> Some day then None
      else
        let recipe_id = get_or (entry_recipe_id entry) PNone;
            product_id = get_or (entry_product_id entry) PNone
        in if truthy recipe_id then
             (case py_int recipe_id of
                Inl err \<Rightarrow> None
              | Inr rid \<Rightarrow>
                  let userfields = get_recipe_userfields c rid
                  in (case py_float (get_or (entry_servings entry) (PFloat 1)) of
                        Inl err \<Rightarrow> None
                      | Inr servings \<Rightarrow>
                          Some (trunc (get_float userfields ''recipe_calories'' 0 * servings),
                                get_float userfields ''recipe_carbs'' 0 * servings,
                                get_float userfields ''recipe_fats'' 0 * servings,
                                get_float userfields ''recipe_proteins'' 0 * servings)))
           else if truthy product_id then
             (case bind_err (py_int product_id) (get_product_userfields c) of
                Inl err \<Rightarrow> None
              | Inr userfields \<Rightarrow>
                  (case py_float (get_or (entry_amount entry) (PFloat 1)) of
                     Inl err \<Rightarrow> None
                   | Inr amount \<Rightarrow>
                       Some (trunc (get_float userfields ''Calories_Per_Serving'' 0 * amount),
                             get_float userfields ''Carbs'' 0 * amount,
                             get_float userfields ''Fats'' 0 * amount,
                             get_float userfields ''Protein'' 0 * amount)))
           else None)"

fun planned_loop ::
  "backend \<Rightarrow> string \<Rightarrow> int \<times> real \<times> real \<times> real \<Rightarrow> meal_plan_entry list \<Rightarrow> int \<times> real \<times> real \<times> real" where
  "planned_loop c day totals [] = totals"
| "planned_loop c day (total_cals, total_carbs, total_fats, total_protein) (entry # rest) =
     (case planned_of_entry c day entry of
        None \<Rightarrow> planned_loop c day (total_cals, total_carbs, total_fats, total_protein) rest
      | Some (cals, ca, fa, pr) \<Rightarrow>
          planned_loop c day
            (total_cals + cals, total_carbs + ca, total_fats + fa, total_protein + pr) rest)"

definition get_grocy_planned_for_day :: "world \<Rightarrow> string \<Rightarrow> macros" where
  "get_grocy_planned_for_day w day =
     (case bind_err (GrocyClient w) (\<lambda>client.
             bind_err (list_meal_plan client) (\<lambda>all_entries.
               Inr (planned_loop client day (0, 0, 0, 0) all_entries))) of
        Inr (total_cals, total_carbs, total_fats, total_protein) \<Rightarrow>
          \<lparr>calories = total_cals, carbs = round2 total_carbs, fats = round2 total_fats,
           protein = round2 total_protein\<rparr>
      | Inl err \<Rightarrow> \<lparr>calories = 0, carbs = 0, fats = 0, protein = 0\<rparr>)"

text \<open>
  \<open>os.getenv(env_key) or macro_db.get_config(key) or dflt\<close>: the ledger is read only when
  the variable is unset or empty.
\<close>

definition goal_setting :: "world \<Rightarrow> string \<Rightarrow> string \<Rightarrow> string \<Rightarrow> error + string" where
  "goal_setting w env_key key dflt =
     (case getenv w env_key of
        None \<Rightarrow>
          bind_err (get_config w key)
            (\<lambda>v. case v of None \<Rightarrow> Inr dflt | Some s \<Rightarrow> if s \<noteq> [] then Inr s else Inr dflt)
      | Some x \<Rightarrow>
          if x \<noteq> [] then Inr x
          else bind_err (get_config w key)
                 (\<lambda>v. case v of None \<Rightarrow> Inr dflt | Some s \<Rightarrow> if s \<noteq> [] then Inr s else Inr dflt))"

definition get_goal_macros :: "world \<Rightarrow> error + macros" where
  "get_goal_macros w =
     bind_err (bind_err (goal_setting w ''MACRO_GOAL_CALORIES'' ''goal_calories'' ''3500'') int_of_str)
       (\<lambda>goal_cals.
          bind_err (bind_err (goal_setting w ''MACRO_GOAL_CARBS'' ''goal_carbs'' ''350'') float_of_str)
            (\<lambda>goal_carbs.
               bind_err (bind_err (goal_setting w ''MACRO_GOAL_FATS'' ''goal_fats'' ''100'') float_of_str)
                 (\<lambda>goal_fats.
                    bind_err (bind_err (goal_setting w ''MACRO_GOAL_PROTEIN'' ''goal_protein'' ''250'') float_of_str)
                      (\<lambda>goal_protein.
                         Inr \<lparr>calories = goal_cals, carbs = round2 goal_carbs,
                              fats = round2 goal_fats, protein = round2 goal_protein\<rparr>))))"

definition get_day_summary :: "world \<Rightarrow> string \<Rightarrow> error + day_summary" where
  "get_day_summary w day =
     (let grocy_consumed = get_grocy_consumed_for_day w day;
          temp_consumed = get_temp_consumed_for_day w day;
          all_entries = grocy_consumed @ temp_consumed;
          consumed_cals = py_sum (map e_calories all_entries);
          consumed_carbs = py_sum (map e_carbs all_entries);
          consumed_fats = py_sum (map e_fats all_entries);
          consumed_protein = py_sum (map e_protein all_entries);
          planned_totals = get_grocy_planned_for_day w day
      in bind_err (get_goal_macros w)
           (\<lambda>goal_totals.
              Inr \<lparr>summary_day = day,
                   consumed = \<lparr>calories = consumed_cals,
                               carbs = round2 consumed_carbs,
                               fats = round2 consumed_fats,
                               protein = round2 consumed_protein,
                               entries = all_entries\<rparr>,
                   planned = planned_totals,
                   goal = goal_totals\<rparr>))"

text \<open>
  The days with activity.  The ledger is asked for the \<open>day\<close> column of \<open>temp_items\<close>; a
  failure of either source leaves that source out.  Every truthy day is added to the set,
  and the set is sorted in descending order.
\<close>

fun add_days :: "string option list \<Rightarrow> string set \<Rightarrow> string set" where
  "add_days [] days_set = days_set"
| "add_days (row # rows) days_set =
     (case row of
        None \<Rightarrow> add_days rows days_set
      | Some d \<Rightarrow> if d \<noteq> [] then add_days rows (insert d days_set) else add_days rows days_set)"

definition get_recent_days_with_activity :: "world \<Rightarrow> int option \<Rightarrow> string list" where
  "get_recent_days_with_activity w limit =
     (let from_ledger =
            (case store w of
               None \<Rightarrow> {}
             | Some l \<Rightarrow> (case temp_items_days l of None \<Rightarrow> {} | Some rows \<Rightarrow> add_days rows {}));
          days_set =
            (case bind_err (GrocyClient w) list_meal_plan of
               Inl err \<Rightarrow> from_ledger
             | Inr all_entries \<Rightarrow> add_days (map entry_day all_entries) from_ledger);
          days_list = rev (sorted_list_of_set days_set)
      in case limit of
           None \<Rightarrow> days_list
         | Some n \<Rightarrow> if 0 < n then take (nat n) days_list else days_list)"

section \<open>integrations.macros\<close>

text \<open>What a caller receives: the payload, or the envelope \<open>{status: "error", message}\<close>.\<close>

datatype 'a response = Payload 'a | StatusError error

record recent_days =
  days :: "day_summary list"
  total_pages :: int
  current_page :: int
  total_days :: int

definition get_day_macros :: "world \<Rightarrow> string option \<Rightarrow> day_summary response" where
  "get_day_macros w day =
     (case bind_err (case day of None \<Rightarrow> get_current_day_timestamp w | Some d \<Rightarrow> Inr d)
             (get_day_summary w) of
        Inr summary \<Rightarrow> Payload summary
      | Inl exc \<Rightarrow> StatusError exc)"

text \<open>The slice \<open>xs[i:j]\<close>, a negative index counting from the end.\<close>

definition py_slice :: "'a list \<Rightarrow> int \<Rightarrow> int \<Rightarrow> 'a list" where
  "py_slice xs i j =
     (let n = int (length xs);
          lo = (if i < 0 then max 0 (i + n) else min i n);
          hi = (if j < 0 then max 0 (j + n) else min j n)
      in take (nat (hi - lo)) (drop (nat lo) xs))"

text \<open>The summaries of the days of a page; a day whose summary raises is skipped.\<close>

fun summaries :: "world \<Rightarrow> string list \<Rightarrow> day_summary list" where
  "summaries w [] = []"
| "summaries w (day # rest) =
     (case get_day_summary w day of
        Inr summary \<Rightarrow> summary # summaries w rest
      | Inl exc \<Rightarrow> summaries w rest)"

definition get_recent_days :: "world \<Rightarrow> int \<Rightarrow> int \<Rightarrow> recent_days response" where
  "get_recent_days w page limit =
     (let all_days = get_recent_days_with_activity w None;
          n_days = int (length all_days)
      in if limit = 0 then StatusError ZeroDivisionError
         else
           let n_pages = max 1 ((n_days + limit - 1) div limit);
               page = max 0 (min page (n_pages - 1));
               start_idx = page * limit;
               end_idx = start_idx + limit;
               page_days = py_slice all_days start_idx end_idx;
               days_data = summaries w page_days
           in Payload \<lparr>days = days_data, total_pages = n_pages, current_page = page,
                       total_days = n_days\<rparr>)"


section \<open>Worlds used in the examples\<close>

text \<open>A backend that cannot be reached: every request fails in transport.\<close>

definition unreachable_backend :: backend where
  "unreachable_backend =
     \<lparr>get_objects_meal_plan = Inl ConnectionError, http_get = (\<lambda>p. Inl ConnectionError)\<rparr>"

text \<open>The configuration rows the schema seeds, and a ledger holding nothing else.\<close>

definition seeded_config :: "string \<Rightarrow> string option" where
  "seeded_config =
     map_of [(''day_start_hour'', ''6''), (''goal_calories'', ''3500''), (''goal_carbs'', ''350''),
             (''goal_fats'', ''100''), (''goal_protein'', ''250'')]"

definition seeded_ledger :: ledger where
  "seeded_ledger =
     \<lparr>grocy_config = seeded_config, grocy_temp_items = [], temp_items_days = None\<rparr>"

definition at_clock :: "nat \<Rightarrow> nat \<Rightarrow> nat \<Rightarrow> nat \<Rightarrow> nat \<Rightarrow> datetime" where
  "at_clock y m d h mi =
     \<lparr>year = y, month = m, mday = d, hour = h, minute = mi, second = 0, microsecond = 0\<rparr>"

text \<open>No environment variable set, the seeded ledger, no backend, the clock at \<open>t\<close>.\<close>

definition seeded_world :: "datetime \<Rightarrow> world" where
  "seeded_world t =
     \<lparr>getenv = (\<lambda>k. None), now = t, store = Some seeded_ledger, grocy = unreachable_backend\<rparr>"

text \<open>The world \<open>w\<close> with the backend answering the meal plan \<open>es\<close> as a bare list.\<close>

definition with_meal_plan :: "world \<Rightarrow> meal_plan_entry list \<Rightarrow> world" where
  "with_meal_plan w es = w\<lparr>grocy := (grocy w)\<lparr>get_objects_meal_plan := Inr (BareList es)\<rparr>\<rparr>"

text \<open>
  The end-to-end scenario: on 2025-03-01 a done entry of recipe 7 with 2 servings, whose
  userfields are 300 calories, 40 carbs, 10 fats and 20 proteins, and a temp item of 150
  calories, 15 carbs, 5 fats and 5 protein.  Product 9 has a userfield, but none of the
  four nutrition fields.
\<close>

definition plan_entry :: "string \<Rightarrow> meal_plan_entry" where
  "plan_entry day =
     \<lparr>entry_day = Some day, entry_done = None, entry_is_done = None, entry_completed = None,
      entry_recipe_id = None, entry_product_id = None, entry_servings = None,
      entry_amount = None\<rparr>"

definition recipe_7_done :: meal_plan_entry where
  "recipe_7_done =
     (plan_entry ''2025-03-01'')\<lparr>entry_done := Some (PInt 1), entry_recipe_id := Some (PInt 7),
                                 entry_servings := Some (PInt 2)\<rparr>"

definition recipe_7_planned :: meal_plan_entry where
  "recipe_7_planned =
     (plan_entry ''2025-03-01'')\<lparr>entry_done := Some (PInt 0), entry_recipe_id := Some (PInt 7)\<rparr>"

definition product_9_done :: meal_plan_entry where
  "product_9_done =
     (plan_entry ''2025-03-01'')\<lparr>entry_done := Some (PBool True),
                                 entry_product_id := Some (PStr ''9'')\<rparr>"

definition scenario_backend :: backend where
  "scenario_backend =
     \<lparr>get_objects_meal_plan = Inr (BareList [recipe_7_done]),
      http_get = (\<lambda>p.
        if p = ObjectsRecipes 7 then Inr (PDict [(''id'', PInt 7), (''name'', PStr ''Chili'')])
        else if p = ObjectsRecipesUserfields 7 then
          Inr (PDict [(''recipe_calories'', PInt 300), (''recipe_carbs'', PInt 40),
                      (''recipe_fats'', PInt 10), (''recipe_proteins'', PInt 20)])
        else if p = ObjectsProducts 9 then Inr (PDict [(''id'', PInt 9), (''name'', PStr ''Rice'')])
        else if p = ObjectsProductsUserfields 9 then Inr (PDict [(''price'', PStr ''2.49'')])
        else Inl (HTTPError (Some 404)))\<rparr>"

definition snack :: temp_item where
  "snack =
     \<lparr>item_id = 1, item_name = ''snack'', item_calories = Some 150, item_carbs = Some 15,
      item_fats = Some 5, item_protein = Some 5, item_day = ''2025-03-01''\<rparr>"

definition scenario_world :: world where
  "scenario_world =
     \<lparr>getenv = (\<lambda>k. if k = ''GROCY_API_KEY'' then Some ''secret'' else None),
      now = at_clock 2025 3 1 12 0,
      store = Some (seeded_ledger\<lparr>grocy_temp_items := [snack]\<rparr>),
      grocy = scenario_backend\<rparr>"

text \<open>
  The scenario with three meal-plan entries: the done recipe, a done entry of product 9,
  and a second entry of recipe 7 that is not done; and the summary it gives.
\<close>

definition mixed_world :: world where
  "mixed_world = with_meal_plan scenario_world [recipe_7_done, product_9_done, recipe_7_planned]"

definition mixed_summary :: day_summary where
  "mixed_summary =
     \<lparr>summary_day = ''2025-03-01'',
      consumed =
        \<lparr>calories = 750, carbs = 95, fats = 25, protein = 45,
         entries =
           [\<lparr>e_type = Recipe, e_id = 7, e_name = Name (PStr ''Chili''), e_servings = Some 2,
             e_calories = 600, e_carbs = 80, e_fats = 20, e_protein = 40\<rparr>,
            \<lparr>e_type = Product, e_id = 9, e_name = Name (PStr ''Rice''), e_servings = Some 1,
             e_calories = 0, e_carbs = 0, e_fats = 0, e_protein = 0\<rparr>,
            \<lparr>e_type = Temp, e_id = 1, e_name = Name (PStr ''snack''), e_servings = None,
             e_calories = 150, e_carbs = 15, e_fats = 5, e_protein = 5\<rparr>]\<rparr>,
      planned = \<lparr>calories = 900, carbs = 120, fats = 30, protein = 60\<rparr>,
      goal = \<lparr>calories = 3500, carbs = 350, fats = 100, protein = 250\<rparr>\<rparr>"

text \<open>The summaries of the scenario with the first entry only, and with the first two.\<close>

definition scenario_summary :: day_summary where
  "scenario_summary =
     \<lparr>summary_day = ''2025-03-01'',
      consumed =
        \<lparr>calories = 750, carbs = 95, fats = 25, protein = 45,
         entries =
           [\<lparr>e_type = Recipe, e_id = 7, e_name = Name (PStr ''Chili''), e_servings = Some 2,
             e_calories = 600, e_carbs = 80, e_fats = 20, e_protein = 40\<rparr>,
            \<lparr>e_type = Temp, e_id = 1, e_name = Name (PStr ''snack''), e_servings = None,
             e_calories = 150, e_carbs = 15, e_fats = 5, e_protein = 5\<rparr>]\<rparr>,
      planned = \<lparr>calories = 600, carbs = 80, fats = 20, protein = 40\<rparr>,
      goal = \<lparr>calories = 3500, carbs = 350, fats = 100, protein = 250\<rparr>\<rparr>"

definition done_only_summary :: day_summary where
  "done_only_summary =
     mixed_summary\<lparr>planned := \<lparr>calories = 600, carbs = 80, fats = 20, protein = 40\<rparr>\<rparr>"




text \<open>
  The seeded world with the goal override \<open>MACRO_GOAL_CALORIES\<close> set to the text \<open>v\<close>.
\<close>

definition override_world :: "string \<Rightarrow> world" where
  "override_world v =
     (seeded_world (at_clock 2025 3 1 12 0))
       \<lparr>getenv := (\<lambda>k. if k = ''MACRO_GOAL_CALORIES'' then Some v else None)\<rparr>"

text \<open>A ledger with no configuration row at all.\<close>

definition blank_world :: world where
  "blank_world =
     (seeded_world (at_clock 2025 3 1 12 0))
       \<lparr>store := Some \<lparr>grocy_config = (\<lambda>k. None), grocy_temp_items = [],
                       temp_items_days = None\<rparr>\<rparr>"

text \<open>
  A world whose ledger cannot be reached; in the second one the four goal overrides are
  set.
\<close>

definition dark_world :: world where
  "dark_world = (seeded_world (at_clock 2025 3 1 12 0))\<lparr>store := None\<rparr>"

definition dark_override_world :: world where
  "dark_override_world =
     dark_world
       \<lparr>getenv := map_of [(''MACRO_GOAL_CALORIES'', ''2000''), (''MACRO_GOAL_CARBS'', ''200''),
                           (''MACRO_GOAL_FATS'', ''50''), (''MACRO_GOAL_PROTEIN'', ''150'')]\<rparr>"

definition dark_override_summary :: day_summary where
  "dark_override_summary =
     \<lparr>summary_day = ''2025-03-01'',
      consumed = \<lparr>calories = 0, carbs = 0, fats = 0, protein = 0, entries = []\<rparr>,
      planned = \<lparr>calories = 0, carbs = 0, fats = 0, protein = 0\<rparr>,
      goal = \<lparr>calories = 2000, carbs = 200, fats = 50, protein = 150\<rparr>\<rparr>"

text \<open>
  Ten days of activity, 2025-01-01 to 2025-01-10, found in the ledger in no particular
  order; and what a page shows: the days of its summaries, then the three counters.
\<close>

definition ten_days_world :: world where
  "ten_days_world =
     (seeded_world (at_clock 2025 1 10 12 0))
       \<lparr>store := Some (seeded_ledger
          \<lparr>temp_items_days :=
             Some (map Some [''2025-01-03'', ''2025-01-09'', ''2025-01-01'', ''2025-01-10'',
                             ''2025-01-06'', ''2025-01-02'', ''2025-01-08'', ''2025-01-05'',
                             ''2025-01-07'', ''2025-01-04''])\<rparr>)\<rparr>"

definition page_view :: "recent_days \<Rightarrow> string list \<times> int \<times> int \<times> int" where
  "page_view r = (map summary_day (days r), total_pages r, current_page r, total_days r)"

section \<open>Basic facts\<close>

lemma bind_err_simps [simp]:
  "bind_err (Inl e) f = Inl e"
  "bind_err (Inr x) f = f x"
  by (simp_all add: bind_err_def)

lemma bind_err_eq_Inr:
  "bind_err m f = Inr y \<longleftrightarrow> (\<exists>x. m = Inr x \<and> f x = Inr y)"
  by (cases m) simp_all

subsection \<open>The calendar\<close>

lemma days_in_month_pos: "1 \<le> days_in_month y m"
  by (simp add: days_in_month_def)

lemma days_in_december: "days_in_month y 12 = 31"
  by (simp add: days_in_month_def)

lemma minus_plus_one_day:
  assumes "valid_date d" and "plus_one_day d = Inr n"
  shows "minus_one_day n = Inr d"
proof -
  have v: "1 \<le> month d" "month d \<le> 12" "1 \<le> mday d"
    "mday d \<le> days_in_month (year d) (month d)"
    using assms(1) by (simp_all add: valid_date_def)
  have vy: "1 \<le> year d"
    using assms(1) by (simp add: valid_date_def)
  consider (a) "mday d < days_in_month (year d) (month d)"
    | (b) "mday d = days_in_month (year d) (month d)" "month d < 12"
    | (c) "mday d = days_in_month (year d) (month d)" "month d = 12"
    using v by linarith
  then show ?thesis
  proof cases
    case a
    with assms(2) v show ?thesis by (auto simp: plus_one_day_def minus_one_day_def)
  next
    case b
    with assms(2) v show ?thesis by (auto simp: plus_one_day_def minus_one_day_def)
  next
    case c
    with assms(2) v vy show ?thesis
      by (auto simp: plus_one_day_def minus_one_day_def days_in_december split: if_splits)
  qed
qed

lemma plus_minus_one_day:
  assumes "valid_date d" and "minus_one_day d = Inr p"
  shows "plus_one_day p = Inr d \<and> valid_date p"
proof -
  have v: "1 \<le> year d" "year d \<le> 9999" "1 \<le> month d" "month d \<le> 12" "1 \<le> mday d"
    "mday d \<le> days_in_month (year d) (month d)"
    using assms(1) by (simp_all add: valid_date_def)
  consider (a) "1 < mday d" | (b) "mday d = 1" "1 < month d" | (c) "mday d = 1" "month d = 1"
    using v by linarith
  then show ?thesis
  proof cases
    case a
    with assms(2) v show ?thesis
      by (auto simp: plus_one_day_def minus_one_day_def valid_date_def)
  next
    case b
    with assms(2) v days_in_month_pos [of "year d" "month d - 1"] show ?thesis
      by (auto simp: plus_one_day_def minus_one_day_def valid_date_def)
  next
    case c
    with assms(2) v show ?thesis
      by (auto simp: plus_one_day_def minus_one_day_def valid_date_def days_in_december
          split: if_splits)
  qed
qed

lemma strptime_valid:
  "strptime s = Inr d \<Longrightarrow>
     valid_date d \<and> hour d = 0 \<and> minute d = 0 \<and> second d = 0 \<and> microsecond d = 0"
  by (auto simp: strptime_def Let_def split: list.splits if_splits option.splits prod.splits)

lemma plus_one_day_later:
  "plus_one_day d = Inr n \<Longrightarrow>
     (year d, month d, mday d) < (year n, month n, mday n) \<and>
     hour n = hour d \<and> minute n = minute d \<and> second n = second d \<and>
     microsecond n = microsecond d"
  by (auto simp: plus_one_day_def split: if_splits)

lemma minus_one_day_earlier:
  "minus_one_day d = Inr p \<Longrightarrow>
     (year p, month p, mday p) < (year d, month d, mday d) \<and>
     hour p = hour d \<and> minute p = minute d \<and> second p = second d \<and>
     microsecond p = microsecond d"
  by (auto simp: minus_one_day_def split: if_splits)

lemma minus_one_day_defined:
  "valid_date d \<Longrightarrow> \<not> (year d = 1 \<and> month d = 1 \<and> mday d = 1) \<Longrightarrow> \<exists>p. minus_one_day d = Inr p"
  by (auto simp: valid_date_def minus_one_day_def)

lemma plus_one_day_defined:
  assumes "valid_date d" and "\<not> (year d = 9999 \<and> month d = 12 \<and> mday d = 31)"
  shows "\<exists>n. plus_one_day d = Inr n"
proof (cases "month d = 12")
  case True
  with assms show ?thesis
    by (auto simp: valid_date_def plus_one_day_def days_in_december)
next
  case False
  with assms show ?thesis
    by (auto simp: valid_date_def plus_one_day_def)
qed

lemma minus_one_second_earlier:
  assumes "minus_one_second d = Inr b"
  shows "dt_less b d"
proof -
  consider (s) "0 < second d" | (m) "second d = 0" "0 < minute d"
    | (h) "second d = 0" "minute d = 0" "0 < hour d"
    | (z) "second d = 0" "minute d = 0" "hour d = 0"
    by linarith
  then show ?thesis
  proof cases
    case z
    with assms obtain p where p: "minus_one_day d = Inr p"
      and b: "b = p\<lparr>hour := 23, minute := 59, second := 59\<rparr>"
      by (auto simp: minus_one_second_def bind_err_eq_Inr)
    from minus_one_day_earlier [OF p] b show ?thesis
      by (auto simp: dt_less_def dt_key_def)
  qed (use assms in \<open>auto simp: minus_one_second_def dt_less_def dt_key_def\<close>)
qed

lemma day_later_second_earlier:
  assumes "valid_date s" and "plus_one_day s = Inr n" and "minus_one_second n = Inr e"
  shows "dt_le s e"
proof -
  note later = plus_one_day_later [OF assms(2)]
  consider (s) "0 < second n" | (m) "second n = 0" "0 < minute n"
    | (h) "second n = 0" "minute n = 0" "0 < hour n"
    | (z) "second n = 0" "minute n = 0" "hour n = 0"
    by linarith
  then show ?thesis
  proof cases
    case z
    from minus_plus_one_day [OF assms(1,2)] z assms(3)
    have "e = s\<lparr>hour := 23, minute := 59, second := 59\<rparr>"
      by (auto simp: minus_one_second_def)
    with z later show ?thesis
      by (auto simp: dt_le_def dt_key_def)
  qed (use assms(3) later in \<open>auto simp: minus_one_second_def dt_le_def dt_key_def\<close>)
qed

lemma dt_le_refl: "dt_le d d"
  by (simp add: dt_le_def)

lemma dt_less_not_le: "dt_less a b \<Longrightarrow> \<not> dt_le b a"
  by (simp add: dt_less_def dt_le_def not_le)

subsection \<open>Evaluating the examples\<close>

lemmas parse_eval =
  strptime_def is_digit_def digit_val_def month_token_def day_token_def valid_date_def
  days_in_month_def is_leap_def

lemmas clock_eval =
  at_clock_def plus_one_day_def minus_one_second_def minus_one_day_def days_in_month_def
  is_leap_def dt_le_def dt_less_def dt_key_def

lemma seeded_start_hour: "get_day_start_hour (seeded_world t) = Inr 6"
  by (simp add: get_day_start_hour_def seeded_world_def get_config_def seeded_ledger_def
      seeded_config_def int_of_str_def strip_def is_space_def unsigned_int_def digit_run_def
      is_digit_def digit_val_def)

lemma seeded_range_15:
  "get_datetime_range_for_day (seeded_world t) ''2025-01-15'' =
     Inr (at_clock 2025 1 15 6 0, (at_clock 2025 1 16 5 59)\<lparr>second := 59\<rparr>)"
  by (simp add: get_datetime_range_for_day_def seeded_start_hour parse_eval clock_eval)

lemma seeded_range_16:
  "get_datetime_range_for_day (seeded_world t) ''2025-01-16'' =
     Inr (at_clock 2025 1 16 6 0, (at_clock 2025 1 17 5 59)\<lparr>second := 59\<rparr>)"
  by (simp add: get_datetime_range_for_day_def seeded_start_hour parse_eval clock_eval)

section \<open>The day boundary\<close>

lemma get_day_start_hour_range: "get_day_start_hour w = Inr H \<Longrightarrow> H \<le> 23"
  unfolding get_day_start_hour_def Let_def get_config_def
  by (simp split: option.splits if_splits sum.splits)

text \<open>
  C2.  For a configured start hour \<open>H\<close>, \<open>get_current_day_timestamp\<close> at wall-clock time
  \<open>now\<close> returns the calendar date of \<open>now\<close> minus one day when the hour of \<open>now\<close> is
  below \<open>H\<close>, and the calendar date of \<open>now\<close> otherwise.  The date minus one day is the
  date whose following day is the date of \<open>now\<close>; it exists for every date but the first
  of the calendar.
\<close>

theorem current_day_boundary:
  assumes "get_day_start_hour w = Inr H"
    and "valid_date (now w)"
    and "\<not> (year (now w) = 1 \<and> month (now w) = 1 \<and> mday (now w) = 1)"
  shows "\<exists>yesterday. minus_one_day (now w) = Inr yesterday \<and>
           plus_one_day yesterday = Inr (now w) \<and>
           get_current_day_timestamp w =
             Inr (if hour (now w) < H then strftime yesterday else strftime (now w))"
proof -
  from minus_one_day_defined [OF assms(2,3)] obtain p where p: "minus_one_day (now w) = Inr p" ..
  from plus_minus_one_day [OF assms(2) p] have "plus_one_day p = Inr (now w)" ..
  with p assms(1) show ?thesis
    by (simp add: get_current_day_timestamp_def)
qed

text \<open>
  With the seeded start hour 6: 2025-01-15 05:30 is still 2025-01-14, and 06:00 is
  2025-01-15.
\<close>

theorem current_day_boundary_witness:
  "get_day_start_hour (seeded_world (at_clock 2025 1 15 5 30)) = Inr 6 \<and>
   get_current_day_timestamp (seeded_world (at_clock 2025 1 15 5 30)) = Inr ''2025-01-14'' \<and>
   get_current_day_timestamp (seeded_world (at_clock 2025 1 15 6 0)) = Inr ''2025-01-15''"
proof -
  let ?early = "seeded_world (at_clock 2025 1 15 5 30)"
  let ?late = "seeded_world (at_clock 2025 1 15 6 0)"
  have valid: "valid_date (now ?early)" "valid_date (now ?late)"
    by (simp_all add: seeded_world_def at_clock_def valid_date_def days_in_month_def)
  have not_first: "\<not> (year (now ?early) = 1 \<and> month (now ?early) = 1 \<and> mday (now ?early) = 1)"
    "\<not> (year (now ?late) = 1 \<and> month (now ?late) = 1 \<and> mday (now ?late) = 1)"
    by (simp_all add: seeded_world_def at_clock_def)
  have "get_current_day_timestamp ?early = Inr ''2025-01-14''"
    using current_day_boundary [OF seeded_start_hour valid(1) not_first(1)]
    by (auto simp: seeded_world_def at_clock_def minus_one_day_def strftime_def pad4_def
        pad2_def digit_char_def)
  moreover have "get_current_day_timestamp ?late = Inr ''2025-01-15''"
    using current_day_boundary [OF seeded_start_hour valid(2) not_first(2)]
    by (auto simp: seeded_world_def at_clock_def minus_one_day_def strftime_def pad4_def
        pad2_def digit_char_def)
  ultimately show ?thesis
    using seeded_start_hour by simp
qed

text \<open>
  C9.  For a day string that parses to a date \<open>d\<close>, the range of the day starts on \<open>d\<close> at
  the start hour, 00 minutes, 00 seconds, and ends 24 hours less one second later; the
  start and the end are in the day, and the second before the start is not.  The last
  date of the calendar has no following day, and the first one at start hour 0 has no
  second before its start.
\<close>

theorem range_round_trip:
  assumes H: "get_day_start_hour w = Inr H"
    and d: "strptime day = Inr d"
    and not_last: "\<not> (year d = 9999 \<and> month d = 12 \<and> mday d = 31)"
    and not_first: "\<not> (H = 0 \<and> year d = 1 \<and> month d = 1 \<and> mday d = 1)"
  shows "\<exists>start_dt end_dt before.
           get_datetime_range_for_day w day = Inr (start_dt, end_dt) \<and>
           start_dt = d\<lparr>hour := H, minute := 0, second := 0, microsecond := 0\<rparr> \<and>
           bind_err (plus_one_day start_dt) minus_one_second = Inr end_dt \<and>
           minus_one_second start_dt = Inr before \<and>
           is_datetime_in_day w start_dt day = Inr True \<and>
           is_datetime_in_day w end_dt day = Inr True \<and>
           is_datetime_in_day w before day = Inr False"
proof -
  let ?s = "d\<lparr>hour := H, minute := 0, second := 0, microsecond := 0\<rparr>"
  from strptime_valid [OF d] have vd: "valid_date d" ..
  then have vs: "valid_date ?s"
    by (simp add: valid_date_def)
  from not_last have "\<not> (year ?s = 9999 \<and> month ?s = 12 \<and> mday ?s = 31)"
    by simp
  from plus_one_day_defined [OF vs this] obtain n where n: "plus_one_day ?s = Inr n" ..
  have "\<exists>e. minus_one_second n = Inr e"
  proof (cases "H = 0")
    case True
    with minus_plus_one_day [OF vs n] plus_one_day_later [OF n] show ?thesis
      by (simp add: minus_one_second_def)
  next
    case False
    with plus_one_day_later [OF n] show ?thesis
      by (simp add: minus_one_second_def)
  qed
  then obtain e where e: "minus_one_second n = Inr e" ..
  have "\<exists>b. minus_one_second ?s = Inr b"
  proof (cases "H = 0")
    case True
    with not_first have "\<not> (year ?s = 1 \<and> month ?s = 1 \<and> mday ?s = 1)"
      by simp
    from minus_one_day_defined [OF vs this] True show ?thesis
      by (auto simp: minus_one_second_def)
  next
    case False
    then show ?thesis
      by (simp add: minus_one_second_def)
  qed
  then obtain b where b: "minus_one_second ?s = Inr b" ..
  have range: "get_datetime_range_for_day w day = Inr (?s, e)"
    using H d n e by (simp add: get_datetime_range_for_day_def)
  have se: "dt_le ?s e"
    by (rule day_later_second_earlier [OF vs n e])
  have bs: "dt_less b ?s"
    by (rule minus_one_second_earlier [OF b])
  have "is_datetime_in_day w ?s day = Inr True"
    using range se by (simp add: is_datetime_in_day_def dt_le_refl)
  moreover have "is_datetime_in_day w e day = Inr True"
    using range se by (simp add: is_datetime_in_day_def dt_le_refl)
  moreover have "is_datetime_in_day w b day = Inr False"
    using range dt_less_not_le [OF bs] by (simp add: is_datetime_in_day_def)
  ultimately show ?thesis
    using range n e b by simp
qed

theorem range_round_trip_witness:
  "get_datetime_range_for_day (seeded_world (at_clock 2025 1 15 12 0)) ''2025-01-15'' =
     Inr (at_clock 2025 1 15 6 0, (at_clock 2025 1 16 5 59)\<lparr>second := 59\<rparr>) \<and>
   is_datetime_in_day (seeded_world (at_clock 2025 1 15 12 0)) (at_clock 2025 1 15 6 0)
     ''2025-01-15'' = Inr True \<and>
   is_datetime_in_day (seeded_world (at_clock 2025 1 15 12 0))
     ((at_clock 2025 1 16 5 59)\<lparr>second := 59\<rparr>) ''2025-01-15'' = Inr True \<and>
   is_datetime_in_day (seeded_world (at_clock 2025 1 15 12 0))
     ((at_clock 2025 1 15 5 59)\<lparr>second := 59\<rparr>) ''2025-01-15'' = Inr False"
proof -
  let ?w = "seeded_world (at_clock 2025 1 15 12 0)"
  have parse: "strptime ''2025-01-15'' = Inr (at_clock 2025 1 15 0 0)"
    by (simp add: parse_eval at_clock_def)
  have not_last: "\<not> (year (at_clock 2025 1 15 0 0) = 9999 \<and> month (at_clock 2025 1 15 0 0) = 12 \<and>
      mday (at_clock 2025 1 15 0 0) = 31)"
    by (simp add: at_clock_def)
  have not_first: "\<not> ((6::nat) = 0 \<and> year (at_clock 2025 1 15 0 0) = 1 \<and>
      month (at_clock 2025 1 15 0 0) = 1 \<and> mday (at_clock 2025 1 15 0 0) = 1)"
    by simp
  from range_round_trip [OF seeded_start_hour parse not_last not_first]
  obtain s e b where range: "get_datetime_range_for_day ?w ''2025-01-15'' = Inr (s, e)"
    and b: "minus_one_second s = Inr b"
    and inside: "is_datetime_in_day ?w s ''2025-01-15'' = Inr True"
      "is_datetime_in_day ?w e ''2025-01-15'' = Inr True"
    and outside: "is_datetime_in_day ?w b ''2025-01-15'' = Inr False"
    by blast
  from range have s: "s = at_clock 2025 1 15 6 0"
    and e: "e = (at_clock 2025 1 16 5 59)\<lparr>second := 59\<rparr>"
    by (simp_all add: seeded_range_15)
  from b s have "b = (at_clock 2025 1 15 5 59)\<lparr>second := 59\<rparr>"
    by (simp add: clock_eval)
  with range inside outside s e show ?thesis
    by simp
qed

subsection \<open>The order of the days\<close>

lemma plus_one_day_valid:
  assumes "valid_date d" and "plus_one_day d = Inr m"
  shows "valid_date m"
proof -
  have v: "1 \<le> year d" "year d \<le> 9999" "1 \<le> month d" "month d \<le> 12" "1 \<le> mday d"
    using assms(1) by (simp_all add: valid_date_def)
  consider (a) "mday d < days_in_month (year d) (month d)"
    | (b) "\<not> mday d < days_in_month (year d) (month d)" "month d < 12"
    | (c) "\<not> mday d < days_in_month (year d) (month d)" "\<not> month d < 12"
    by blast
  then show ?thesis
  proof cases
    case a
    with assms(2) v show ?thesis
      by (auto simp: plus_one_day_def valid_date_def)
  next
    case b
    with assms(2) v days_in_month_pos [of "year d" "month d + 1"] show ?thesis
      by (auto simp: plus_one_day_def valid_date_def)
  next
    case c
    with assms(2) v days_in_month_pos [of "year d + 1" 1] show ?thesis
      by (auto simp: plus_one_day_def valid_date_def split: if_splits)
  qed
qed

lemma date_before_next:
  assumes "valid_date x" and "plus_one_day d = Inr d'"
    and "(year x, month x, mday x) < (year d', month d', mday d')"
  shows "(year x, month x, mday x) \<le> (year d, month d, mday d)"
proof -
  have x: "1 \<le> month x" "month x \<le> 12" "1 \<le> mday x"
    "mday x \<le> days_in_month (year x) (month x)"
    using assms(1) by (simp_all add: valid_date_def)
  consider (a) "mday d < days_in_month (year d) (month d)"
    | (b) "\<not> mday d < days_in_month (year d) (month d)" "month d < 12"
    | (c) "\<not> mday d < days_in_month (year d) (month d)" "\<not> month d < 12"
    by blast
  then show ?thesis
  proof cases
    case a
    with assms(2) have "d' = d\<lparr>mday := mday d + 1\<rparr>"
      by (simp add: plus_one_day_def)
    with assms(3) show ?thesis
      by auto
  next
    case b
    with assms(2) have d': "d' = d\<lparr>month := month d + 1, mday := 1\<rparr>"
      by (simp add: plus_one_day_def)
    show ?thesis
    proof (cases "year x = year d \<and> month x = month d")
      case True
      with x(4) b(1) have "mday x \<le> mday d"
        by simp
      with True show ?thesis
        by simp
    next
      case False
      with assms(3) d' x(3) have "year x < year d \<or> year x = year d \<and> month x < month d"
        by auto
      then show ?thesis
        by auto
    qed
  next
    case c
    with assms(2) have d': "d' = d\<lparr>year := year d + 1, month := 1, mday := 1\<rparr>"
      by (auto simp: plus_one_day_def split: if_splits)
    show ?thesis
    proof (cases "year x = year d \<and> month x = month d")
      case True
      with x(2) c(2) have "month d = 12"
        by simp
      with True x(4) c(1) have "mday x \<le> mday d"
        by simp
      with True show ?thesis
        by simp
    next
      case False
      with assms(3) d' x(1,2,3) c(2)
      have "year x < year d \<or> year x = year d \<and> month x < month d"
        by auto
      then show ?thesis
        by auto
    qed
  qed
qed

lemma plus_one_day_mono:
  assumes "valid_date d"
    and "plus_one_day x = Inr n" and "plus_one_day d = Inr m"
    and "(year x, month x, mday x) \<le> (year d, month d, mday d)"
  shows "(year n, month n, mday n) \<le> (year m, month m, mday m)"
proof (rule ccontr)
  assume "\<not> (year n, month n, mday n) \<le> (year m, month m, mday m)"
  then have "(year m, month m, mday m) < (year n, month n, mday n)"
    by (simp only: not_le)
  from date_before_next [OF plus_one_day_valid [OF assms(1,3)] assms(2) this]
  have "(year m, month m, mday m) \<le> (year x, month x, mday x)" .
  also note assms(4)
  also from plus_one_day_later [OF assms(3)]
  have "(year d, month d, mday d) < (year m, month m, mday m)" ..
  finally show False
    by simp
qed

lemma dt_le_trans: "dt_le a b \<Longrightarrow> dt_le b c \<Longrightarrow> dt_le a c"
  unfolding dt_le_def by (rule order_trans)

lemma plus_one_day_at_hour:
  "plus_one_day d = Inr d' \<Longrightarrow>
   plus_one_day (d\<lparr>hour := H, minute := 0, second := 0, microsecond := 0\<rparr>) =
     Inr (d'\<lparr>hour := H, minute := 0, second := 0, microsecond := 0\<rparr>)"
  by (auto simp: plus_one_day_def split: if_splits)

lemma range_parts:
  assumes "get_datetime_range_for_day w x = Inr (sx, ex)"
  shows "\<exists>H dx n. get_day_start_hour w = Inr H \<and> strptime x = Inr dx \<and>
           sx = dx\<lparr>hour := H, minute := 0, second := 0, microsecond := 0\<rparr> \<and>
           plus_one_day sx = Inr n \<and> minus_one_second n = Inr ex"
  using assms by (auto simp: get_datetime_range_for_day_def bind_err_eq_Inr Let_def)

lemma end_of_day_mono:
  assumes vx: "valid_date dx" and vd: "valid_date d"
    and le: "(year dx, month dx, mday dx) \<le> (year d, month d, mday d)"
    and n: "plus_one_day (dx\<lparr>hour := H, minute := 0, second := 0, microsecond := 0\<rparr>) = Inr n"
    and m: "plus_one_day (d\<lparr>hour := H, minute := 0, second := 0, microsecond := 0\<rparr>) = Inr m"
    and ex: "minus_one_second n = Inr ex"
    and e: "minus_one_second m = Inr e"
  shows "dt_le ex e"
proof -
  let ?sx = "dx\<lparr>hour := H, minute := 0, second := 0, microsecond := 0\<rparr>"
  let ?s = "d\<lparr>hour := H, minute := 0, second := 0, microsecond := 0\<rparr>"
  have vsx: "valid_date ?sx" and vs: "valid_date ?s"
    using vx vd by (simp_all add: valid_date_def)
  note tn = plus_one_day_later [OF n]
  note tm = plus_one_day_later [OF m]
  show ?thesis
  proof (cases "H = 0")
    case True
    from minus_plus_one_day [OF vsx n] tn True ex
    have ex': "ex = ?sx\<lparr>hour := 23, minute := 59, second := 59\<rparr>"
      by (auto simp: minus_one_second_def)
    from minus_plus_one_day [OF vs m] tm True e
    have e': "e = ?s\<lparr>hour := 23, minute := 59, second := 59\<rparr>"
      by (auto simp: minus_one_second_def)
    from le show ?thesis
      unfolding ex' e' by (auto simp: dt_le_def dt_key_def)
  next
    case False
    from tn False ex have ex': "ex = n\<lparr>hour := H - 1, minute := 59, second := 59\<rparr>"
      by (auto simp: minus_one_second_def)
    from tm False e have e': "e = m\<lparr>hour := H - 1, minute := 59, second := 59\<rparr>"
      by (auto simp: minus_one_second_def)
    from le have "(year ?sx, month ?sx, mday ?sx) \<le> (year ?s, month ?s, mday ?s)"
      by simp
    from plus_one_day_mono [OF vs n m this] tn tm show ?thesis
      unfolding ex' e' by (auto simp: dt_le_def dt_key_def)
  qed
qed

text \<open>
  C10.  Let \<open>next_day\<close> be the day after \<open>day\<close>.  A datetime strictly after the end of
  \<open>day\<close> and strictly before the start of \<open>next_day\<close> is in neither of the two days,
  and in no logical day at all.
\<close>

theorem gap_between_days:
  assumes day: "strptime day = Inr d"
    and next_date: "plus_one_day d = Inr d'"
    and next_day: "strptime next_day = Inr d'"
    and range: "get_datetime_range_for_day w day = Inr (start_dt, end_dt)"
    and next_range: "get_datetime_range_for_day w next_day = Inr (next_start, next_end)"
    and after: "dt_less end_dt dt"
    and before: "dt_less dt next_start"
  shows "is_datetime_in_day w dt day = Inr False \<and>
         is_datetime_in_day w dt next_day = Inr False \<and>
         (\<forall>x. is_datetime_in_day w dt x \<noteq> Inr True)"
proof -
  have two: "is_datetime_in_day w dt day = Inr False"
    "is_datetime_in_day w dt next_day = Inr False"
    using range next_range dt_less_not_le [OF after] dt_less_not_le [OF before]
    by (simp_all add: is_datetime_in_day_def)
  have "is_datetime_in_day w dt x \<noteq> Inr True" for x
  proof
    assume inside: "is_datetime_in_day w dt x = Inr True"
    then obtain sx ex where rx: "get_datetime_range_for_day w x = Inr (sx, ex)"
      and lo: "dt_le sx dt" and hi: "dt_le dt ex"
      by (auto simp: is_datetime_in_day_def bind_err_eq_Inr)
    from range_parts [OF range] day obtain H m
      where H: "get_day_start_hour w = Inr H"
        and s: "start_dt = d\<lparr>hour := H, minute := 0, second := 0, microsecond := 0\<rparr>"
        and m: "plus_one_day start_dt = Inr m" and e: "minus_one_second m = Inr end_dt"
      by auto
    from range_parts [OF next_range] next_day H
    have s': "next_start = d'\<lparr>hour := H, minute := 0, second := 0, microsecond := 0\<rparr>"
      by auto
    from range_parts [OF rx] H obtain dx n
      where x: "strptime x = Inr dx"
        and sx: "sx = dx\<lparr>hour := H, minute := 0, second := 0, microsecond := 0\<rparr>"
        and n: "plus_one_day sx = Inr n" and ex: "minus_one_second n = Inr ex"
      by auto
    from strptime_valid [OF x] have vx: "valid_date dx" ..
    from strptime_valid [OF day] have vd: "valid_date d" ..
    show False
    proof (cases "(year dx, month dx, mday dx) < (year d', month d', mday d')")
      case True
      from date_before_next [OF vx next_date True]
      have "(year dx, month dx, mday dx) \<le> (year d, month d, mday d)" .
      from end_of_day_mono [OF vx vd this n [unfolded sx] m [unfolded s] ex e]
      have "dt_le ex end_dt" .
      with hi have "dt_le dt end_dt"
        by (rule dt_le_trans)
      with dt_less_not_le [OF after] show False
        by simp
    next
      case False
      then have "(year d', month d', mday d') \<le> (year dx, month dx, mday dx)"
        by (simp only: not_less)
      then have "dt_le next_start sx"
        unfolding s' sx by (auto simp: dt_le_def dt_key_def)
      from this lo have "dt_le next_start dt"
        by (rule dt_le_trans)
      with dt_less_not_le [OF before] show False
        by simp
    qed
  qed
  with two show ?thesis
    by blast
qed

text \<open>
  With start hour 6, the instant 05:59:59.500000 of 2025-01-16 is after the end of
  2025-01-15 and before the start of 2025-01-16.
\<close>

theorem gap_between_days_witness:
  "dt_less ((at_clock 2025 1 16 5 59)\<lparr>second := 59\<rparr>)
     ((at_clock 2025 1 16 5 59)\<lparr>second := 59, microsecond := 500000\<rparr>) \<and>
   dt_less ((at_clock 2025 1 16 5 59)\<lparr>second := 59, microsecond := 500000\<rparr>)
     (at_clock 2025 1 16 6 0) \<and>
   is_datetime_in_day (seeded_world (at_clock 2025 1 16 12 0))
     ((at_clock 2025 1 16 5 59)\<lparr>second := 59, microsecond := 500000\<rparr>) ''2025-01-15'' = Inr False \<and>
   is_datetime_in_day (seeded_world (at_clock 2025 1 16 12 0))
     ((at_clock 2025 1 16 5 59)\<lparr>second := 59, microsecond := 500000\<rparr>) ''2025-01-16'' = Inr False \<and>
   is_datetime_in_day (seeded_world (at_clock 2025 1 16 12 0))
     ((at_clock 2025 1 16 5 59)\<lparr>second := 59, microsecond := 500000\<rparr>) ''2025-01-17'' \<noteq> Inr True"
proof -
  let ?dt = "(at_clock 2025 1 16 5 59)\<lparr>second := 59, microsecond := 500000\<rparr>"
  have day: "strptime ''2025-01-15'' = Inr (at_clock 2025 1 15 0 0)"
    by (simp add: parse_eval at_clock_def)
  have next_day: "strptime ''2025-01-16'' = Inr (at_clock 2025 1 16 0 0)"
    by (simp add: parse_eval at_clock_def)
  have next_date: "plus_one_day (at_clock 2025 1 15 0 0) = Inr (at_clock 2025 1 16 0 0)"
    by (simp add: clock_eval)
  have after_end: "dt_less ((at_clock 2025 1 16 5 59)\<lparr>second := 59\<rparr>) ?dt"
    by (simp add: clock_eval)
  have before_start: "dt_less ?dt (at_clock 2025 1 16 6 0)"
    by (simp add: clock_eval)
  from gap_between_days [OF day next_date next_day seeded_range_15 seeded_range_16
      after_end before_start]
    after_end before_start
  show ?thesis
    by simp
qed

text \<open>The next day starts exactly one second after the end of the day.\<close>

lemma consecutive_days_one_second_apart:
  assumes "strptime day = Inr d" and "plus_one_day d = Inr d'" and "strptime next_day = Inr d'"
    and "get_datetime_range_for_day w day = Inr (start_dt, end_dt)"
    and "get_datetime_range_for_day w next_day = Inr (next_start, next_end)"
  shows "minus_one_second next_start = Inr end_dt"
proof -
  from assms(4) obtain H where H: "get_day_start_hour w = Inr H"
    by (auto simp: get_datetime_range_for_day_def bind_err_eq_Inr)
  let ?s = "d\<lparr>hour := H, minute := 0, second := 0, microsecond := 0\<rparr>"
  let ?s' = "d'\<lparr>hour := H, minute := 0, second := 0, microsecond := 0\<rparr>"
  have "plus_one_day ?s = Inr ?s'"
    using assms(2) by (auto simp: plus_one_day_def split: if_splits)
  with assms(1,4) H have "minus_one_second ?s' = Inr end_dt"
    by (simp add: get_datetime_range_for_day_def bind_err_eq_Inr)
  moreover from assms(3,5) H have "next_start = ?s'"
    by (auto simp: get_datetime_range_for_day_def bind_err_eq_Inr Let_def)
  ultimately show ?thesis
    by simp
qed

section \<open>The aggregation engine\<close>

subsection \<open>Sums, loops and origins\<close>

lemma foldl_plus_sum_list: "foldl (+) a xs = a + sum_list (xs :: 'a::monoid_add list)"
  by (induction xs arbitrary: a) (simp_all add: add.assoc)

lemma py_sum_sum_list: "py_sum xs = sum_list xs"
  by (simp add: py_sum_def foldl_plus_sum_list)

lemma consumed_loop_append:
  "consumed_loop c day (xs @ ys) = consumed_loop c day xs @ consumed_loop c day ys"
  by (induction xs) (simp_all split: option.splits)

lemma recipe_consumed_type: "recipe_consumed c entry rid = Inr e \<Longrightarrow> e_type e = Recipe"
  by (auto simp: recipe_consumed_def bind_err_eq_Inr Let_def)

lemma product_consumed_type:
  assumes "product_consumed c entry pid = Inr e"
  shows "e_type e = Product"
proof -
  from assms obtain p product uf amount
    where "(case product of
              PDict d \<Rightarrow>
                Inr \<lparr>e_type = Product, e_id = p,
                     e_name = (case map_of d ''name'' of
                                 Some v \<Rightarrow> Name v
                               | None \<Rightarrow> DefaultName ''Product '' pid),
                     e_servings = Some amount,
                     e_calories = trunc (get_float uf ''Calories_Per_Serving'' 0 * amount),
                     e_carbs = get_float uf ''Carbs'' 0 * amount,
                     e_fats = get_float uf ''Fats'' 0 * amount,
                     e_protein = get_float uf ''Protein'' 0 * amount\<rparr>
            | _ \<Rightarrow> Inl AttributeError) = Inr e"
    unfolding product_consumed_def bind_err_eq_Inr Let_def by blast
  then show ?thesis
    by (cases product) auto
qed

lemma consumed_of_entry_type:
  "consumed_of_entry c day entry = Some e \<Longrightarrow> e_type e = Recipe \<or> e_type e = Product"
  by (auto simp: consumed_of_entry_def Let_def split: if_splits sum.splits
      dest: recipe_consumed_type product_consumed_type)

lemma consumed_loop_types:
  "e \<in> set (consumed_loop c day es) \<Longrightarrow> e_type e = Recipe \<or> e_type e = Product"
  by (induction es) (auto split: option.splits dest: consumed_of_entry_type)

lemma grocy_consumed_cases:
  "get_grocy_consumed_for_day w day = [] \<or>
   (\<exists>c es. get_grocy_consumed_for_day w day = consumed_loop c day es)"
proof (cases "GrocyClient w")
  case (Inr c)
  then show ?thesis
    by (cases "list_meal_plan c") (auto simp: get_grocy_consumed_for_day_def)
qed (simp add: get_grocy_consumed_for_day_def)

lemma grocy_consumed_types:
  "e \<in> set (get_grocy_consumed_for_day w day) \<Longrightarrow> e_type e = Recipe \<or> e_type e = Product"
  using grocy_consumed_cases [of w day] by (auto dest: consumed_loop_types)

lemma temp_entry_type: "temp_entry item = Inr e \<Longrightarrow> e_type e = Temp"
  by (auto simp: temp_entry_def split: option.splits)

lemma temp_loop_types: "temp_loop items = Inr es \<Longrightarrow> e \<in> set es \<Longrightarrow> e_type e = Temp"
  by (induction items arbitrary: es) (auto simp: bind_err_eq_Inr dest: temp_entry_type)

lemma temp_consumed_cases:
  "get_temp_consumed_for_day w day = [] \<or>
   (\<exists>items. temp_loop items = Inr (get_temp_consumed_for_day w day))"
proof (cases "get_temp_items_for_day w day")
  case (Inr items)
  then show ?thesis
    by (cases "temp_loop items") (auto simp: get_temp_consumed_for_day_def)
qed (simp add: get_temp_consumed_for_day_def)

lemma temp_consumed_types:
  "e \<in> set (get_temp_consumed_for_day w day) \<Longrightarrow> e_type e = Temp"
  using temp_consumed_cases [of w day] by (auto dest: temp_loop_types)

lemma get_day_summary_Inr:
  "get_day_summary w day = Inr s \<Longrightarrow>
     entries (consumed s) = get_grocy_consumed_for_day w day @ get_temp_consumed_for_day w day \<and>
     calories (consumed s) = py_sum (map e_calories (entries (consumed s))) \<and>
     carbs (consumed s) = round2 (py_sum (map e_carbs (entries (consumed s)))) \<and>
     fats (consumed s) = round2 (py_sum (map e_fats (entries (consumed s)))) \<and>
     protein (consumed s) = round2 (py_sum (map e_protein (entries (consumed s)))) \<and>
     planned s = get_grocy_planned_for_day w day \<and>
     get_goal_macros w = Inr (goal s) \<and>
     summary_day s = day"
  by (auto simp: get_day_summary_def Let_def bind_err_eq_Inr)

subsection \<open>Replacing the meal plan\<close>

lemma GrocyClient_with_meal_plan:
  "GrocyClient (with_meal_plan w es) =
     (if str_truthy (getenv w ''GROCY_API_KEY'')
      then Inr ((grocy w)\<lparr>get_objects_meal_plan := Inr (BareList es)\<rparr>)
      else Inl RuntimeError)"
  by (simp add: GrocyClient_def with_meal_plan_def)

lemma list_meal_plan_bare:
  "list_meal_plan (c\<lparr>get_objects_meal_plan := Inr (BareList es)\<rparr>) = Inr es"
  by (simp add: list_meal_plan_def)

lemma http_get_meal_plan_update: "http_get (c\<lparr>get_objects_meal_plan := m\<rparr>) = http_get c"
  by simp

lemma get_recipe_meal_plan_update:
  "get_recipe (c\<lparr>get_objects_meal_plan := m\<rparr>) = get_recipe c"
  unfolding get_recipe_def http_get_meal_plan_update ..

lemma get_recipe_userfields_meal_plan_update:
  "get_recipe_userfields (c\<lparr>get_objects_meal_plan := m\<rparr>) = get_recipe_userfields c"
  unfolding get_recipe_userfields_def http_get_meal_plan_update ..

lemma get_product_userfields_meal_plan_update:
  "get_product_userfields (c\<lparr>get_objects_meal_plan := m\<rparr>) = get_product_userfields c"
  unfolding get_product_userfields_def http_get_meal_plan_update ..

lemmas meal_plan_update =
  http_get_meal_plan_update get_recipe_meal_plan_update get_recipe_userfields_meal_plan_update
  get_product_userfields_meal_plan_update

lemma consumed_of_entry_meal_plan_update:
  "consumed_of_entry (c\<lparr>get_objects_meal_plan := m\<rparr>) day entry = consumed_of_entry c day entry"
  unfolding consumed_of_entry_def recipe_consumed_def product_consumed_def meal_plan_update ..

lemma planned_of_entry_meal_plan_update:
  "planned_of_entry (c\<lparr>get_objects_meal_plan := m\<rparr>) day entry = planned_of_entry c day entry"
  unfolding planned_of_entry_def meal_plan_update ..

lemma consumed_loop_meal_plan_update:
  "consumed_loop (c\<lparr>get_objects_meal_plan := m\<rparr>) day es = consumed_loop c day es"
  by (induction es) (simp_all add: consumed_of_entry_meal_plan_update split: option.splits)

lemma planned_loop_meal_plan_update:
  "planned_loop (c\<lparr>get_objects_meal_plan := m\<rparr>) day totals es = planned_loop c day totals es"
  by (induction c day totals es rule: planned_loop.induct)
    (simp_all add: planned_of_entry_meal_plan_update split: option.splits)

lemma consumed_with_meal_plan:
  "get_grocy_consumed_for_day (with_meal_plan w es) day =
     (if str_truthy (getenv w ''GROCY_API_KEY'') then consumed_loop (grocy w) day es else [])"
  by (simp add: get_grocy_consumed_for_day_def GrocyClient_with_meal_plan list_meal_plan_bare
      consumed_loop_meal_plan_update)

lemma planned_with_meal_plan:
  "get_grocy_planned_for_day (with_meal_plan w es) day =
     (if str_truthy (getenv w ''GROCY_API_KEY'') then
        (case planned_loop (grocy w) day (0, 0, 0, 0) es of
           (total_cals, total_carbs, total_fats, total_protein) \<Rightarrow>
             \<lparr>calories = total_cals, carbs = round2 total_carbs, fats = round2 total_fats,
              protein = round2 total_protein\<rparr>)
      else \<lparr>calories = 0, carbs = 0, fats = 0, protein = 0\<rparr>)"
  by (simp add: get_grocy_planned_for_day_def GrocyClient_with_meal_plan list_meal_plan_bare
      planned_loop_meal_plan_update split: prod.splits)

lemma temp_with_meal_plan:
  "get_temp_consumed_for_day (with_meal_plan w es) day = get_temp_consumed_for_day w day"
  by (simp add: get_temp_consumed_for_day_def get_temp_items_for_day_def with_meal_plan_def)

lemma get_config_with_meal_plan: "get_config (with_meal_plan w es) = get_config w"
  by (simp add: get_config_def with_meal_plan_def fun_eq_iff)

lemma getenv_with_meal_plan: "getenv (with_meal_plan w es) = getenv w"
  by (simp add: with_meal_plan_def)

lemma goal_with_meal_plan: "get_goal_macros (with_meal_plan w es) = get_goal_macros w"
  unfolding get_goal_macros_def goal_setting_def get_config_with_meal_plan
    getenv_with_meal_plan ..

text \<open>The summary in terms of its parts.\<close>

lemma get_day_summary_goal:
  "get_goal_macros w = Inr g \<Longrightarrow>
   get_day_summary w day =
     Inr \<lparr>summary_day = day,
          consumed =
            \<lparr>calories = sum_list (map e_calories
                 (get_grocy_consumed_for_day w day @ get_temp_consumed_for_day w day)),
             carbs = round2 (sum_list (map e_carbs
                 (get_grocy_consumed_for_day w day @ get_temp_consumed_for_day w day))),
             fats = round2 (sum_list (map e_fats
                 (get_grocy_consumed_for_day w day @ get_temp_consumed_for_day w day))),
             protein = round2 (sum_list (map e_protein
                 (get_grocy_consumed_for_day w day @ get_temp_consumed_for_day w day))),
             entries = get_grocy_consumed_for_day w day @ get_temp_consumed_for_day w day\<rparr>,
          planned = get_grocy_planned_for_day w day,
          goal = g\<rparr>"
  by (simp add: get_day_summary_def Let_def py_sum_sum_list)

lemma get_day_summary_raises:
  "get_day_summary w day = Inl e \<longleftrightarrow> get_goal_macros w = Inl e"
  by (cases "get_goal_macros w") (simp_all add: get_day_summary_def Let_def)

subsection \<open>The running totals of the planned loop\<close>

lemma planned_loop_totals:
  "planned_loop c day (a, b, x, y) es =
     (case planned_loop c day (0, 0, 0, 0) es of
        (a', b', x', y') \<Rightarrow> (a + a', b + b', x + x', y + y'))"
proof (induction es arbitrary: a b x y)
  case Nil
  show ?case by simp
next
  case (Cons entry es)
  show ?case
  proof (cases "planned_of_entry c day entry")
    case None
    then show ?thesis
      using Cons.IH [of a b x y] by simp
  next
    case (Some m)
    obtain m1 m2 m3 m4 where m: "m = (m1, m2, m3, m4)"
      by (cases m) auto
    show ?thesis
      using Some m Cons.IH [of "a + m1" "b + m2" "x + m3" "y + m4"] Cons.IH [of m1 m2 m3 m4]
      by (simp split: prod.splits)
  qed
qed

lemma planned_loop_append:
  "planned_loop c day totals (xs @ ys) = planned_loop c day (planned_loop c day totals xs) ys"
  by (induction c day totals xs rule: planned_loop.induct) (simp_all split: option.splits)

lemma planned_loop_insert:
  "planned_loop c day (0, 0, 0, 0) (pre @ entry # post) =
     (case (planned_loop c day (0, 0, 0, 0) (pre @ post), planned_of_entry c day entry) of
        (totals, None) \<Rightarrow> totals
      | ((a, b, x, y), Some (a', b', x', y')) \<Rightarrow> (a + a', b + b', x + x', y + y'))"
proof -
  obtain p1 p2 p3 p4 where p: "planned_loop c day (0, 0, 0, 0) pre = (p1, p2, p3, p4)"
    by (cases "planned_loop c day (0, 0, 0, 0) pre") auto
  obtain q1 q2 q3 q4 where q: "planned_loop c day (0, 0, 0, 0) post = (q1, q2, q3, q4)"
    by (cases "planned_loop c day (0, 0, 0, 0) post") auto
  show ?thesis
  proof (cases "planned_of_entry c day entry")
    case None
    then show ?thesis
      by (simp add: planned_loop_append p)
  next
    case (Some m)
    obtain m1 m2 m3 m4 where m: "m = (m1, m2, m3, m4)"
      by (cases m) auto
    show ?thesis
      using Some m p q planned_loop_totals [of c day p1 p2 p3 p4 post]
        planned_loop_totals [of c day "p1 + m1" "p2 + m2" "p3 + m3" "p4 + m4" post]
      by (simp add: planned_loop_append)
  qed
qed

subsection \<open>Evaluating the scenarios\<close>


lemma scenario_eval: "get_day_summary scenario_world ''2025-03-01'' = Inr scenario_summary"
  by code_simp

lemma mixed_eval: "get_day_summary mixed_world ''2025-03-01'' = Inr mixed_summary"
  by code_simp

lemma done_only_eval:
  "get_day_summary (with_meal_plan scenario_world ([recipe_7_done, product_9_done] @ []))
     ''2025-03-01'' = Inr done_only_summary"
  by code_simp


subsection \<open>Consumed totals\<close>

text \<open>
  C1.  In the summary that \<open>get_day_summary\<close> returns, the consumed calories are the
  sum of the calories of the consumed entries, whatever their origins; the entries are the
  meal-plan-derived ones followed by the temp-item-derived ones, no meal-plan-derived entry
  has origin temp, and every temp-item-derived entry has, so that no entry is counted in
  both portions.
\<close>

theorem consumed_calories_additive:
  assumes "get_day_summary w day = Inr s"
  shows "calories (consumed s) = (\<Sum>e\<leftarrow>entries (consumed s). e_calories e) \<and>
         entries (consumed s) =
           get_grocy_consumed_for_day w day @ get_temp_consumed_for_day w day \<and>
         (\<forall>e \<in> set (get_grocy_consumed_for_day w day). e_type e \<noteq> Temp) \<and>
         (\<forall>e \<in> set (get_temp_consumed_for_day w day). e_type e = Temp)"
proof -
  have "e_type e \<noteq> Temp" if "e \<in> set (get_grocy_consumed_for_day w day)" for e
    using grocy_consumed_types [OF that] by auto
  moreover have "e_type e = Temp" if "e \<in> set (get_temp_consumed_for_day w day)" for e
    using that by (rule temp_consumed_types)
  ultimately show ?thesis
    using get_day_summary_Inr [OF assms] by (simp add: py_sum_sum_list)
qed

text \<open>
  The scenario with a recipe entry, a product entry and a temp item: 600 + 0 + 150 = 750.
\<close>

theorem consumed_calories_additive_witness:
  "get_day_summary mixed_world ''2025-03-01'' = Inr mixed_summary \<and>
   calories (consumed mixed_summary) = 750 \<and>
   (\<Sum>e\<leftarrow>entries (consumed mixed_summary). e_calories e) = 750 \<and>
   map e_type (entries (consumed mixed_summary)) = [Recipe, Product, Temp] \<and>
   map e_type (get_temp_consumed_for_day mixed_world ''2025-03-01'') = [Temp]"
proof -
  have temp: "map e_type (get_temp_consumed_for_day mixed_world ''2025-03-01'') = [Temp]"
    by code_simp
  have total: "calories (consumed mixed_summary) = 750"
    by (simp add: mixed_summary_def)
  have types: "map e_type (entries (consumed mixed_summary)) = [Recipe, Product, Temp]"
    by (simp add: mixed_summary_def)
  from consumed_calories_additive [OF mixed_eval]
  have "calories (consumed mixed_summary) = (\<Sum>e\<leftarrow>entries (consumed mixed_summary). e_calories e)"
    by (rule conjunct1)
  with total have "(\<Sum>e\<leftarrow>entries (consumed mixed_summary). e_calories e) = 750"
    by simp
  with mixed_eval temp total types show ?thesis
    by simp
qed

subsection \<open>Temp items\<close>






subsection \<open>One more entry in the meal plan\<close>

lemma consumed_loop_insert:
  "consumed_loop c day (pre @ entry # post) =
     consumed_loop c day pre @
     (case consumed_of_entry c day entry of None \<Rightarrow> [] | Some e \<Rightarrow> [e]) @
     consumed_loop c day post"
  by (simp add: consumed_loop_append split: option.splits)





subsection \<open>An entry without nutrition userfields\<close>

lemma get_float_absent: "dict_get data key = PNone \<Longrightarrow> get_float data key dflt = dflt"
  by (simp add: get_float_def)

lemma trunc_zero: "trunc 0 = 0"
  by (simp add: trunc_def)

lemma product_consumed_zero:
  assumes "product_consumed c entry product_id = Inr z"
    and "\<forall>pid uf. py_int product_id = Inr pid \<longrightarrow> get_product_userfields c pid = Inr uf \<longrightarrow>
           dict_get uf ''Calories_Per_Serving'' = PNone \<and> dict_get uf ''Carbs'' = PNone \<and>
           dict_get uf ''Fats'' = PNone \<and> dict_get uf ''Protein'' = PNone"
  shows "e_calories z = 0 \<and> e_carbs z = 0 \<and> e_fats z = 0 \<and> e_protein z = 0"
proof -
  from assms(1) obtain p product uf amount
    where p: "py_int product_id = Inr p" and uf: "get_product_userfields c p = Inr uf"
      and z: "(case product of
              PDict d \<Rightarrow>
                Inr \<lparr>e_type = Product, e_id = p,
                     e_name = (case map_of d ''name'' of
                                 Some v \<Rightarrow> Name v
                               | None \<Rightarrow> DefaultName ''Product '' product_id),
                     e_servings = Some amount,
                     e_calories = trunc (get_float uf ''Calories_Per_Serving'' 0 * amount),
                     e_carbs = get_float uf ''Carbs'' 0 * amount,
                     e_fats = get_float uf ''Fats'' 0 * amount,
                     e_protein = get_float uf ''Protein'' 0 * amount\<rparr>
            | _ \<Rightarrow> Inl AttributeError) = Inr z"
    unfolding product_consumed_def bind_err_eq_Inr Let_def by blast
  from assms(2) p uf have "get_float uf ''Calories_Per_Serving'' 0 = 0"
    "get_float uf ''Carbs'' 0 = 0" "get_float uf ''Fats'' 0 = 0" "get_float uf ''Protein'' 0 = 0"
    by (simp_all add: get_float_absent)
  with z show ?thesis
    by (cases product) (auto simp: trunc_zero)
qed

lemma consumed_of_entry_zero:
  assumes "consumed_of_entry c day entry = Some z"
    and "\<not> truthy (get_or (entry_recipe_id entry) PNone)"
    and "\<forall>pid uf. py_int (get_or (entry_product_id entry) PNone) = Inr pid \<longrightarrow>
           get_product_userfields c pid = Inr uf \<longrightarrow>
           dict_get uf ''Calories_Per_Serving'' = PNone \<and> dict_get uf ''Carbs'' = PNone \<and>
           dict_get uf ''Fats'' = PNone \<and> dict_get uf ''Protein'' = PNone"
  shows "e_calories z = 0 \<and> e_carbs z = 0 \<and> e_fats z = 0 \<and> e_protein z = 0"
proof -
  from assms(1,2) have "product_consumed c entry (get_or (entry_product_id entry) PNone) = Inr z"
    by (auto simp: consumed_of_entry_def Let_def split: if_splits sum.splits)
  from product_consumed_zero [OF this assms(3)] show ?thesis .
qed

lemma planned_of_entry_zero:
  assumes "planned_of_entry c day entry = Some m"
    and "\<not> truthy (get_or (entry_recipe_id entry) PNone)"
    and "\<forall>pid uf. py_int (get_or (entry_product_id entry) PNone) = Inr pid \<longrightarrow>
           get_product_userfields c pid = Inr uf \<longrightarrow>
           dict_get uf ''Calories_Per_Serving'' = PNone \<and> dict_get uf ''Carbs'' = PNone \<and>
           dict_get uf ''Fats'' = PNone \<and> dict_get uf ''Protein'' = PNone"
  shows "m = (0, 0, 0, 0)"
proof -
  from assms(1,2) obtain uf amount
    where uf: "bind_err (py_int (get_or (entry_product_id entry) PNone))
                 (get_product_userfields c) = Inr uf"
      and m: "m = (trunc (get_float uf ''Calories_Per_Serving'' 0 * amount),
                   get_float uf ''Carbs'' 0 * amount,
                   get_float uf ''Fats'' 0 * amount,
                   get_float uf ''Protein'' 0 * amount)"
    by (auto simp: planned_of_entry_def Let_def split: if_splits sum.splits)
  from uf obtain p where "py_int (get_or (entry_product_id entry) PNone) = Inr p"
    and "get_product_userfields c p = Inr uf"
    by (auto simp: bind_err_eq_Inr)
  with assms(3) have "get_float uf ''Calories_Per_Serving'' 0 = 0"
    "get_float uf ''Carbs'' 0 = 0" "get_float uf ''Fats'' 0 = 0" "get_float uf ''Protein'' 0 = 0"
    by (simp_all add: get_float_absent)
  with m show ?thesis
    by (simp add: trunc_zero)
qed

lemma sum_list_zero_middle:
  fixes f :: "'a \<Rightarrow> 'b::monoid_add"
  assumes "\<forall>z \<in> set zs. f z = 0"
  shows "sum_list (map f (xs @ zs @ ys)) = sum_list (map f (xs @ ys))"
proof -
  from assms have "sum_list (map f zs) = 0"
    by (induction zs) simp_all
  then show ?thesis by simp
qed

text \<open>
  C8.  A meal-plan entry of a product whose userfields hold none of the four nutrition
  fields changes no consumed total, no planned total and no goal, and the summary is
  returned as it is without the entry: every other entry is still there, in its place,
  and the entry itself is skipped or listed with four zeros.
\<close>

theorem missing_userfields_contribute_nothing:
  assumes no_recipe: "\<not> truthy (get_or (entry_recipe_id entry) PNone)"
    and no_fields:
      "\<forall>pid uf. py_int (get_or (entry_product_id entry) PNone) = Inr pid \<longrightarrow>
         get_product_userfields (grocy w) pid = Inr uf \<longrightarrow>
         dict_get uf ''Calories_Per_Serving'' = PNone \<and> dict_get uf ''Carbs'' = PNone \<and>
         dict_get uf ''Fats'' = PNone \<and> dict_get uf ''Protein'' = PNone"
    and s: "get_day_summary (with_meal_plan w (pre @ post)) day = Inr s"
  shows "\<exists>s' xs zs ys.
           get_day_summary (with_meal_plan w (pre @ entry # post)) day = Inr s' \<and>
           calories (consumed s') = calories (consumed s) \<and>
           carbs (consumed s') = carbs (consumed s) \<and>
           fats (consumed s') = fats (consumed s) \<and>
           protein (consumed s') = protein (consumed s) \<and>
           planned s' = planned s \<and>
           goal s' = goal s \<and>
           entries (consumed s) = xs @ ys \<and>
           entries (consumed s') = xs @ zs @ ys \<and>
           length zs \<le> 1 \<and>
           (\<forall>z \<in> set zs. e_calories z = 0 \<and> e_carbs z = 0 \<and> e_fats z = 0 \<and> e_protein z = 0)"
proof -
  let ?w = "with_meal_plan w (pre @ post)"
  let ?w' = "with_meal_plan w (pre @ entry # post)"
  let ?K = "str_truthy (getenv w ''GROCY_API_KEY'')"
  let ?S = "\<lambda>v. \<lparr>summary_day = day,
          consumed =
            \<lparr>calories = sum_list (map e_calories
                 (get_grocy_consumed_for_day v day @ get_temp_consumed_for_day v day)),
             carbs = round2 (sum_list (map e_carbs
                 (get_grocy_consumed_for_day v day @ get_temp_consumed_for_day v day))),
             fats = round2 (sum_list (map e_fats
                 (get_grocy_consumed_for_day v day @ get_temp_consumed_for_day v day))),
             protein = round2 (sum_list (map e_protein
                 (get_grocy_consumed_for_day v day @ get_temp_consumed_for_day v day))),
             entries = get_grocy_consumed_for_day v day @ get_temp_consumed_for_day v day\<rparr>,
          planned = get_grocy_planned_for_day v day,
          goal = goal s\<rparr>"
  define xs where "xs = (if ?K then consumed_loop (grocy w) day pre else [])"
  define zs where "zs =
    (if ?K then (case consumed_of_entry (grocy w) day entry of None \<Rightarrow> [] | Some z \<Rightarrow> [z])
     else [])"
  define ys where "ys =
    (if ?K then consumed_loop (grocy w) day post else []) @ get_temp_consumed_for_day w day"
  from get_day_summary_Inr [OF s] have g: "get_goal_macros ?w = Inr (goal s)"
    by simp
  then have g': "get_goal_macros ?w' = Inr (goal s)"
    by (simp add: goal_with_meal_plan)
  have s_eq: "s = ?S ?w"
    using s get_day_summary_goal [OF g, of day] by simp
  have s': "get_day_summary ?w' day = Inr (?S ?w')"
    using get_day_summary_goal [OF g', of day] by simp
  have without: "get_grocy_consumed_for_day ?w day @ get_temp_consumed_for_day ?w day = xs @ ys"
    by (simp add: xs_def ys_def consumed_with_meal_plan temp_with_meal_plan consumed_loop_append)
  have with_it:
    "get_grocy_consumed_for_day ?w' day @ get_temp_consumed_for_day ?w' day = xs @ zs @ ys"
    by (simp add: xs_def ys_def zs_def consumed_with_meal_plan temp_with_meal_plan
        consumed_loop_insert)
  have short: "length zs \<le> 1"
    by (simp add: zs_def split: option.splits)
  have zeros: "\<forall>z \<in> set zs. e_calories z = 0 \<and> e_carbs z = 0 \<and> e_fats z = 0 \<and> e_protein z = 0"
  proof
    fix z
    assume "z \<in> set zs"
    then have "consumed_of_entry (grocy w) day entry = Some z"
      unfolding zs_def
      by (cases "consumed_of_entry (grocy w) day entry";
          cases "str_truthy (getenv w ''GROCY_API_KEY'')") simp_all
    from consumed_of_entry_zero [OF this no_recipe no_fields]
    show "e_calories z = 0 \<and> e_carbs z = 0 \<and> e_fats z = 0 \<and> e_protein z = 0" .
  qed
  have planned_entry: "planned_of_entry (grocy w) day entry = None \<or>
      planned_of_entry (grocy w) day entry = Some (0, 0, 0, 0)"
  proof (cases "planned_of_entry (grocy w) day entry")
    case (Some m)
    from planned_of_entry_zero [OF this no_recipe no_fields] Some show ?thesis
      by simp
  qed simp
  have loops: "planned_loop (grocy w) day (0, 0, 0, 0) (pre @ entry # post) =
      planned_loop (grocy w) day (0, 0, 0, 0) (pre @ post)"
    using planned_entry by (auto simp: planned_loop_insert split: prod.splits)
  have planned: "get_grocy_planned_for_day ?w' day = get_grocy_planned_for_day ?w day"
    by (simp add: planned_with_meal_plan loops)
  have sums: "sum_list (map e_calories (xs @ zs @ ys)) = sum_list (map e_calories (xs @ ys))"
    "sum_list (map e_carbs (xs @ zs @ ys)) = sum_list (map e_carbs (xs @ ys))"
    "sum_list (map e_fats (xs @ zs @ ys)) = sum_list (map e_fats (xs @ ys))"
    "sum_list (map e_protein (xs @ zs @ ys)) = sum_list (map e_protein (xs @ ys))"
    using zeros by (simp_all add: sum_list_zero_middle del: map_append)
  have "calories (consumed (?S ?w')) = calories (consumed (?S ?w)) \<and>
      carbs (consumed (?S ?w')) = carbs (consumed (?S ?w)) \<and>
      fats (consumed (?S ?w')) = fats (consumed (?S ?w)) \<and>
      protein (consumed (?S ?w')) = protein (consumed (?S ?w)) \<and>
      planned (?S ?w') = planned (?S ?w) \<and>
      goal (?S ?w') = goal (?S ?w) \<and>
      entries (consumed (?S ?w)) = xs @ ys \<and>
      entries (consumed (?S ?w')) = xs @ zs @ ys"
    by (simp add: without with_it sums planned del: map_append)
  with s_eq have "calories (consumed (?S ?w')) = calories (consumed s) \<and>
      carbs (consumed (?S ?w')) = carbs (consumed s) \<and>
      fats (consumed (?S ?w')) = fats (consumed s) \<and>
      protein (consumed (?S ?w')) = protein (consumed s) \<and>
      planned (?S ?w') = planned s \<and>
      goal (?S ?w') = goal s \<and>
      entries (consumed s) = xs @ ys \<and>
      entries (consumed (?S ?w')) = xs @ zs @ ys"
    by metis
  with s' short zeros show ?thesis
    by blast
qed

lemma recipe_only_eval:
  "get_day_summary (with_meal_plan scenario_world ([recipe_7_done] @ [])) ''2025-03-01'' =
     Inr scenario_summary"
  by code_simp

lemma product_9_id: "int_of_str ''9'' = Inr 9"
  by code_simp

lemma product_9_userfields:
  "get_product_userfields (grocy scenario_world) 9 = Inr [(''price'', PStr ''2.49'')]"
  by code_simp

text \<open>
  The scenario: the done entry of product 9, whose only userfield is a price.
\<close>

theorem missing_userfields_contribute_nothing_witness:
  "is_done product_9_done \<and>
   get_or (entry_product_id product_9_done) PNone = PStr ''9'' \<and>
   get_product_userfields (grocy scenario_world) 9 = Inr [(''price'', PStr ''2.49'')] \<and>
   get_day_summary (with_meal_plan scenario_world ([recipe_7_done] @ [])) ''2025-03-01'' =
     Inr scenario_summary \<and>
   get_day_summary (with_meal_plan scenario_world ([recipe_7_done] @ product_9_done # []))
     ''2025-03-01'' = Inr done_only_summary \<and>
   calories (consumed done_only_summary) = calories (consumed scenario_summary) \<and>
   carbs (consumed done_only_summary) = carbs (consumed scenario_summary) \<and>
   fats (consumed done_only_summary) = fats (consumed scenario_summary) \<and>
   protein (consumed done_only_summary) = protein (consumed scenario_summary) \<and>
   planned done_only_summary = planned scenario_summary \<and>
   length (entries (consumed done_only_summary)) = 3"
proof -
  have marked: "is_done product_9_done"
    by (simp add: is_done_def product_9_done_def plan_entry_def get_or_def)
  have pid: "get_or (entry_product_id product_9_done) PNone = PStr ''9''"
    by (simp add: product_9_done_def plan_entry_def get_or_def)
  have no_recipe: "\<not> truthy (get_or (entry_recipe_id product_9_done) PNone)"
    by (simp add: product_9_done_def plan_entry_def get_or_def)
  have no_fields:
    "\<forall>pid uf. py_int (get_or (entry_product_id product_9_done) PNone) = Inr pid \<longrightarrow>
       get_product_userfields (grocy scenario_world) pid = Inr uf \<longrightarrow>
       dict_get uf ''Calories_Per_Serving'' = PNone \<and> dict_get uf ''Carbs'' = PNone \<and>
       dict_get uf ''Fats'' = PNone \<and> dict_get uf ''Protein'' = PNone"
    by (auto simp: pid product_9_id product_9_userfields dict_get_def)
  have with_it:
    "get_day_summary (with_meal_plan scenario_world ([recipe_7_done] @ product_9_done # []))
       ''2025-03-01'' = Inr done_only_summary"
    using done_only_eval by simp
  from missing_userfields_contribute_nothing [OF no_recipe no_fields recipe_only_eval] with_it
  have "calories (consumed done_only_summary) = calories (consumed scenario_summary) \<and>
    carbs (consumed done_only_summary) = carbs (consumed scenario_summary) \<and>
    fats (consumed done_only_summary) = fats (consumed scenario_summary) \<and>
    protein (consumed done_only_summary) = protein (consumed scenario_summary) \<and>
    planned done_only_summary = planned scenario_summary"
    by auto
  moreover have "length (entries (consumed done_only_summary)) = 3"
    by (simp add: done_only_summary_def mixed_summary_def)
  ultimately show ?thesis
    using marked pid product_9_userfields recipe_only_eval with_it by simp
qed

section \<open>Configuration and failures\<close>

subsection \<open>Goals and the day start hour\<close>

lemma goal_override_wins:
  "map_sum id calories (get_goal_macros (override_world ''2000'')) = Inr 2000"
  by code_simp

lemma goal_stored_config:
  "map_sum id calories (get_goal_macros (seeded_world (at_clock 2025 3 1 12 0))) = Inr 3500"
  by code_simp

lemma goal_hardcoded_default:
  "get_goal_macros blank_world = Inr \<lparr>calories = 3500, carbs = 350, fats = 100, protein = 250\<rparr>"
  by code_simp

lemma day_start_hour_never_raises_on_config:
  "store w \<noteq> None \<Longrightarrow> \<exists>h. get_day_start_hour w = Inr h"
  unfolding get_day_start_hour_def Let_def get_config_def
  by (auto split: option.splits sum.splits)

lemma malformed_day_start_time_falls_through:
  assumes "getenv w ''DAY_START_TIME'' = Some s" and "length s \<noteq> 4 \<or> \<not> isdigit s"
  shows "get_day_start_hour w = get_day_start_hour (w\<lparr>getenv := (\<lambda>k. None)\<rparr>)"
  using assms unfolding get_day_start_hour_def Let_def get_config_def
  by auto

text \<open>
  C5.  The order environment, stored configuration, hardcoded default holds for the goals
  and for the day start hour, and a malformed \<open>DAY_START_TIME\<close> or stored hour falls
  through, as the lemmas above show.  A goal override that is not a number does not fall
  through: with \<open>MACRO_GOAL_CALORIES\<close> set to \<open>abc\<close> and 3500 stored, \<open>int\<close> raises
  ValueError out of \<open>get_goal_macros\<close> and \<open>get_day_summary\<close>, and \<open>get_day_macros\<close>
  answers with the error envelope.
\<close>

theorem non_numeric_goal_override_raises:
  "get_goal_macros (override_world ''abc'') = Inl ValueError \<and>
   get_day_summary (override_world ''abc'') ''2025-03-01'' = Inl ValueError \<and>
   get_day_macros (override_world ''abc'') (Some ''2025-03-01'') = StatusError ValueError \<and>
   grocy_config seeded_ledger ''goal_calories'' = Some ''3500''"
  by code_simp

subsection \<open>Failures of the ledger and of the backend\<close>

lemma goal_setting_dark:
  "store w = None \<Longrightarrow> \<not> str_truthy (getenv w env_key) \<Longrightarrow>
   goal_setting w env_key key dflt = Inl OperationalError"
  by (auto simp: goal_setting_def get_config_def str_truthy_def split: option.splits)

lemma temp_consumed_dark: "store w = None \<Longrightarrow> get_temp_consumed_for_day w day = []"
  by (simp add: get_temp_consumed_for_day_def get_temp_items_for_day_def)

lemma get_config_backend: "get_config (w\<lparr>grocy := b\<rparr>) = get_config w"
  by (simp add: get_config_def fun_eq_iff)

lemma getenv_backend: "getenv (w\<lparr>grocy := b\<rparr>) = getenv w"
  by simp

lemma goal_macros_backend: "get_goal_macros (w\<lparr>grocy := b\<rparr>) = get_goal_macros w"
  unfolding get_goal_macros_def goal_setting_def get_config_backend getenv_backend ..

lemma goal_setting_lit:
  assumes "store w = None" and "bind_err (goal_setting w env_key key dflt) f = Inr a"
  shows "str_truthy (getenv w env_key)"
proof (rule ccontr)
  assume "\<not> str_truthy (getenv w env_key)"
  from goal_setting_dark [OF assms(1) this, of key dflt] assms(2) show False
    by simp
qed

lemma goal_macros_dark:
  assumes "store w = None"
    and "\<not> str_truthy (getenv w ''MACRO_GOAL_CALORIES'') \<or>
         \<not> str_truthy (getenv w ''MACRO_GOAL_CARBS'') \<or>
         \<not> str_truthy (getenv w ''MACRO_GOAL_FATS'') \<or>
         \<not> str_truthy (getenv w ''MACRO_GOAL_PROTEIN'')"
  shows "\<exists>e. get_goal_macros w = Inl e"
proof (cases "bind_err (goal_setting w ''MACRO_GOAL_CALORIES'' ''goal_calories'' ''3500'') int_of_str")
  case (Inl e)
  then show ?thesis by (simp add: get_goal_macros_def)
next
  case cals: (Inr a)
  note 1 = goal_setting_lit [OF assms(1) cals]
  show ?thesis
  proof (cases "bind_err (goal_setting w ''MACRO_GOAL_CARBS'' ''goal_carbs'' ''350'') float_of_str")
    case (Inl e)
    with cals show ?thesis by (simp add: get_goal_macros_def)
  next
    case carbs: (Inr b)
    note 2 = goal_setting_lit [OF assms(1) carbs]
    show ?thesis
    proof (cases "bind_err (goal_setting w ''MACRO_GOAL_FATS'' ''goal_fats'' ''100'') float_of_str")
      case (Inl e)
      with cals carbs show ?thesis by (simp add: get_goal_macros_def)
    next
      case fats: (Inr c)
      note 3 = goal_setting_lit [OF assms(1) fats]
      from 1 2 3 assms(2) have "\<not> str_truthy (getenv w ''MACRO_GOAL_PROTEIN'')"
        by simp
      from goal_setting_dark [OF assms(1) this, of "''goal_protein''" "''250''"] cals carbs fats
      show ?thesis
        by (simp add: get_goal_macros_def)
    qed
  qed
qed

text \<open>
  C4, as the code has it.  When the ledger cannot be reached and at least one of the four
  goal overrides is unset or empty, \<open>get_day_summary\<close> raises and \<open>get_day_macros\<close>
  answers with the error envelope.  The failure of the ledger is not raised where the temp
  items are read: they are then taken to be none.  Whether \<open>get_day_summary\<close> raises,
  and with which error, does not depend on the backend.
\<close>

theorem ledger_failure_reaches_caller_through_goals:
  "(store w = None \<and>
      (\<not> str_truthy (getenv w ''MACRO_GOAL_CALORIES'') \<or>
       \<not> str_truthy (getenv w ''MACRO_GOAL_CARBS'') \<or>
       \<not> str_truthy (getenv w ''MACRO_GOAL_FATS'') \<or>
       \<not> str_truthy (getenv w ''MACRO_GOAL_PROTEIN'')) \<longrightarrow>
      (\<exists>e. get_day_summary w day = Inl e \<and> get_day_macros w (Some day) = StatusError e)) \<and>
   (store w = None \<longrightarrow> get_temp_consumed_for_day w day = []) \<and>
   (get_day_summary (w\<lparr>grocy := b\<rparr>) day = Inl e \<longleftrightarrow> get_day_summary w day = Inl e)"
proof -
  have "\<exists>e. get_day_summary w day = Inl e \<and> get_day_macros w (Some day) = StatusError e"
    if "store w = None" and "\<not> str_truthy (getenv w ''MACRO_GOAL_CALORIES'') \<or>
       \<not> str_truthy (getenv w ''MACRO_GOAL_CARBS'') \<or>
       \<not> str_truthy (getenv w ''MACRO_GOAL_FATS'') \<or>
       \<not> str_truthy (getenv w ''MACRO_GOAL_PROTEIN'')"
  proof -
    from goal_macros_dark [OF that] obtain e where "get_goal_macros w = Inl e" ..
    then have "get_day_summary w day = Inl e"
      by (simp add: get_day_summary_raises)
    then show ?thesis
      by (simp add: get_day_macros_def)
  qed
  moreover have "get_day_summary (w\<lparr>grocy := b\<rparr>) day = Inl e \<longleftrightarrow> get_day_summary w day = Inl e"
    by (simp add: get_day_summary_raises goal_macros_backend)
  ultimately show ?thesis
    using temp_consumed_dark by blast
qed

text \<open>
  With no override set and the ledger out of reach, the caller receives the envelope of
  the ledger error.
\<close>

theorem ledger_failure_reaches_caller_through_goals_witness:
  "store dark_world = None \<and>
   \<not> str_truthy (getenv dark_world ''MACRO_GOAL_CALORIES'') \<and>
   get_day_summary dark_world ''2025-03-01'' = Inl OperationalError \<and>
   get_day_macros dark_world (Some ''2025-03-01'') = StatusError OperationalError \<and>
   get_temp_consumed_for_day dark_world ''2025-03-01'' = []"
proof -
  have dark: "store dark_world = None"
    by (simp add: dark_world_def)
  have unset: "\<not> str_truthy (getenv dark_world ''MACRO_GOAL_CALORIES'')"
    by (simp add: dark_world_def seeded_world_def str_truthy_def)
  have raised: "get_day_summary dark_world ''2025-03-01'' = Inl OperationalError"
    by code_simp
  from ledger_failure_reaches_caller_through_goals [of dark_world "''2025-03-01''"] dark unset
  obtain e where "get_day_summary dark_world ''2025-03-01'' = Inl e"
    and "get_day_macros dark_world (Some ''2025-03-01'') = StatusError e"
    and "get_temp_consumed_for_day dark_world ''2025-03-01'' = []"
    by blast
  with raised dark unset show ?thesis
    by simp
qed

text \<open>
  C4, as the spec states it, fails: with the four goal overrides set, the ledger out of
  reach is not a failure for the caller, who receives a summary without temp entries.
\<close>

theorem ledger_failure_swallowed_counterexample:
  "store dark_override_world = None \<and>
   get_day_macros dark_override_world (Some ''2025-03-01'') = Payload dark_override_summary \<and>
   entries (consumed dark_override_summary) = []"
proof -
  have "store dark_override_world = None"
    by (simp add: dark_override_world_def dark_world_def)
  moreover have "get_day_macros dark_override_world (Some ''2025-03-01'') =
      Payload dark_override_summary"
    by code_simp
  ultimately show ?thesis
    by (simp add: dark_override_summary_def)
qed

section \<open>Pages of recent days\<close>

lemma pages_ceiling:
  fixes n l :: int
  assumes "0 < l"
  shows "(n + l - 1) div l = \<lceil>real_of_int n / real_of_int l\<rceil>"
proof -
  define k where "k = (n + l - 1) div l"
  define m where "m = (n + l - 1) mod l"
  have m: "0 \<le> m" "m < l"
    using assms by (simp_all add: m_def)
  have "n + l - 1 = k * l + m"
    by (simp add: k_def m_def)
  then have n: "n = k * l + m - l + 1"
    by simp
  have "real_of_int n \<le> real_of_int k * real_of_int l"
  proof -
    have "n \<le> k * l" using n m by simp
    then have "real_of_int n \<le> real_of_int (k * l)" by (rule of_int_le_iff [THEN iffD2])
    then show ?thesis by simp
  qed
  moreover have "(real_of_int k - 1) * real_of_int l < real_of_int n"
  proof -
    have "k * l - l < n" using n m by simp
    then have "real_of_int (k * l - l) < real_of_int n" by (rule of_int_less_iff [THEN iffD2])
    then show ?thesis by (simp add: algebra_simps)
  qed
  ultimately have "\<lceil>real_of_int n / real_of_int l\<rceil> = k"
    using assms by (intro ceiling_unique) (simp_all add: field_simps)
  then show ?thesis
    by (simp add: k_def)
qed

lemma py_slice_page:
  assumes "0 \<le> i" and "0 \<le> k"
  shows "py_slice xs i (i + k) = take (nat k) (drop (nat i) xs)"
proof (cases "i \<le> int (length xs)")
  case True
  with assms show ?thesis
    by (auto simp: py_slice_def Let_def min_def intro!: take_all_iff [THEN iffD2] nth_equalityI)
next
  case False
  with assms show ?thesis
    by (simp add: py_slice_def Let_def min_def)
qed


lemma recent_days_descending:
  "sorted_wrt (\<lambda>a b. b < a) (get_recent_days_with_activity w None)"
proof -
  have "sorted_wrt (\<lambda>a b. b < a) (rev (sorted_list_of_set S))" for S :: "string set"
    using strict_sorted_list_of_set [of S] by (simp add: sorted_wrt_rev)
  then show ?thesis
    by (simp add: get_recent_days_with_activity_def Let_def)
qed

lemma summaries_skip:
  "summaries w ds =
     List.map_filter (\<lambda>d. case get_day_summary w d of Inr s \<Rightarrow> Some s | Inl e \<Rightarrow> None) ds"
  by (induction ds) (simp_all split: sum.splits)

lemma clamped_page:
  fixes p q :: int
  shows "0 \<le> max 0 (min p (max 1 q - 1))" and "max 0 (min p (max 1 q - 1)) \<le> max 1 q - 1"
  by linarith+

text \<open>
  C3.  For a page size \<open>limit\<close> of at least 1, \<open>get_recent_days\<close> returns a payload
  in which \<open>total_days\<close> is the length of the full list of days with activity,
  \<open>total_pages\<close> is the ceiling of \<open>total_days / limit\<close> and at least 1,
  \<open>current_page\<close> is \<open>page\<close> clamped into 0 to \<open>total_pages - 1\<close>, and \<open>days\<close>
  holds the summaries of the days at the positions from \<open>current_page * limit\<close> up to
  but not including \<open>current_page * limit + limit\<close> of that list, a day whose summary
  raises being skipped; the list is in strictly descending order.
\<close>

theorem recent_days_pagination:
  assumes "0 < limit"
  shows "\<exists>r. get_recent_days w page limit = Payload r \<and>
           total_days r = int (length (get_recent_days_with_activity w None)) \<and>
           total_pages r = max 1 \<lceil>real_of_int (total_days r) / real_of_int limit\<rceil> \<and>
           current_page r = max 0 (min page (total_pages r - 1)) \<and>
           0 \<le> current_page r \<and> current_page r \<le> total_pages r - 1 \<and>
           days r =
             List.map_filter
               (\<lambda>d. case get_day_summary w d of Inr s \<Rightarrow> Some s | Inl e \<Rightarrow> None)
               (take (nat limit)
                  (drop (nat (current_page r * limit)) (get_recent_days_with_activity w None))) \<and>
           sorted_wrt (\<lambda>a b. b < a) (get_recent_days_with_activity w None)"
proof -
  let ?all = "get_recent_days_with_activity w None"
  let ?n = "int (length ?all)"
  let ?pages = "max 1 ((?n + limit - 1) div limit)"
  let ?page = "max 0 (min page (?pages - 1))"
  let ?r = "\<lparr>days = summaries w (py_slice ?all (?page * limit) (?page * limit + limit)),
            total_pages = ?pages, current_page = ?page, total_days = ?n\<rparr>"
  have r: "get_recent_days w page limit = Payload ?r"
    using assms by (simp add: get_recent_days_def Let_def)
  have pages: "?pages = max 1 \<lceil>real_of_int ?n / real_of_int limit\<rceil>"
    by (simp only: pages_ceiling [OF assms])
  have bounds: "0 \<le> ?page" "?page \<le> ?pages - 1"
    by (rule clamped_page)+
  have "0 \<le> ?page * limit"
    using assms bounds(1) by simp
  then have slice: "py_slice ?all (?page * limit) (?page * limit + limit) =
      take (nat limit) (drop (nat (?page * limit)) ?all)"
    using assms by (intro py_slice_page) simp_all
  have "total_days ?r = ?n \<and>
      total_pages ?r = max 1 \<lceil>real_of_int (total_days ?r) / real_of_int limit\<rceil> \<and>
      current_page ?r = max 0 (min page (total_pages ?r - 1)) \<and>
      0 \<le> current_page ?r \<and> current_page ?r \<le> total_pages ?r - 1 \<and>
      days ?r =
        List.map_filter
          (\<lambda>d. case get_day_summary w d of Inr s \<Rightarrow> Some s | Inl e \<Rightarrow> None)
          (take (nat limit) (drop (nat (current_page ?r * limit)) ?all))"
    using pages bounds slice by (simp add: summaries_skip)
  with r recent_days_descending [of w] show ?thesis
    by blast
qed

text \<open>
  Ten days and pages of 4: page 0 shows the 4 most recent days, page 2 the 2 oldest, there
  are 3 pages, and page 5 is shown as page 2.
\<close>

lemma ten_days_listed:
  "get_recent_days_with_activity ten_days_world None =
     [''2025-01-10'', ''2025-01-09'', ''2025-01-08'', ''2025-01-07'', ''2025-01-06'',
      ''2025-01-05'', ''2025-01-04'', ''2025-01-03'', ''2025-01-02'', ''2025-01-01'']"
  by code_simp

lemma page_0: "map_response page_view (get_recent_days ten_days_world 0 4) =
  Payload ([''2025-01-10'', ''2025-01-09'', ''2025-01-08'', ''2025-01-07''], 3, 0, 10)"
  by code_simp

lemma page_2: "map_response page_view (get_recent_days ten_days_world 2 4) =
  Payload ([''2025-01-02'', ''2025-01-01''], 3, 2, 10)"
  by code_simp

lemma page_5: "map_response page_view (get_recent_days ten_days_world 5 4) =
  Payload ([''2025-01-02'', ''2025-01-01''], 3, 2, 10)"
  by code_simp

theorem recent_days_pagination_witness:
  "(0::int) < 4 \<and>
   length (get_recent_days_with_activity ten_days_world None) = 10 \<and>
   map_response page_view (get_recent_days ten_days_world 0 4) =
     Payload ([''2025-01-10'', ''2025-01-09'', ''2025-01-08'', ''2025-01-07''], 3, 0, 10) \<and>
   map_response page_view (get_recent_days ten_days_world 2 4) =
     Payload ([''2025-01-02'', ''2025-01-01''], 3, 2, 10) \<and>
   map_response page_view (get_recent_days ten_days_world 5 4) =
     Payload ([''2025-01-02'', ''2025-01-01''], 3, 2, 10)"
proof -
  have positive: "(0::int) < 4"
    by simp
  from recent_days_pagination [OF positive, of ten_days_world 5]
  obtain r where r: "get_recent_days ten_days_world 5 4 = Payload r"
    and n: "total_days r = int (length (get_recent_days_with_activity ten_days_world None))"
    and pages: "total_pages r = max 1 \<lceil>real_of_int (total_days r) / real_of_int 4\<rceil>"
    and page: "current_page r = max 0 (min 5 (total_pages r - 1))"
    by blast
  from n have "total_days r = 10"
    by (simp add: ten_days_listed)
  with pages have "total_pages r = 3"
    by simp
  with page have "current_page r = 2"
    by simp
  with r page_5 have "map_response page_view (get_recent_days ten_days_world 5 4) =
      Payload ([''2025-01-02'', ''2025-01-01''], 3, 2, 10)"
    by simp
  with page_0 page_2 show ?thesis
    by (simp add: ten_days_listed)
qed

end
